theory Spec2Isabelle
  imports Main "HOL-Library.Word"
begin

unbundle bit_operations_syntax

section \<open>Machine integers and byte order\<close>

text \<open>
  The driver runs on the ESP32, a little-endian 32-bit target: \<open>size_t\<close> and
  \<open>long\<close> are 32 bits wide, and byte \<open>i\<close> of an integer object holds bits
  \<open>8 * i\<close> to \<open>8 * i + 7\<close> of its value.
\<close>

type_synonym u8 = "8 word"
type_synonym u16 = "16 word"
type_synonym u32 = "32 word"
type_synonym u64 = "64 word"

definition bswap16 :: "u16 \<Rightarrow> u16" where
  "bswap16 x = push_bit 8 x OR drop_bit 8 x"

definition bswap32 :: "u32 \<Rightarrow> u32" where
  "bswap32 x =
     push_bit 24 x OR push_bit 8 (x AND 0xff00) OR
     (drop_bit 8 x AND 0xff00) OR drop_bit 24 x"

section \<open>UIDs (rdm/utils.h, rdm/utils.c)\<close>

text \<open>\<open>rdm_uid_t\<close> of the current sources: a 16-bit manufacturer id and a 32-bit device id.\<close>

record rdm_uid =
  man_id :: u16
  dev_id :: u32

definition rdm_uid_is_eq :: "rdm_uid \<Rightarrow> rdm_uid \<Rightarrow> bool" where
  "rdm_uid_is_eq a b \<longleftrightarrow> man_id a = man_id b \<and> dev_id a = dev_id b"

definition rdm_uid_is_broadcast :: "rdm_uid \<Rightarrow> bool" where
  "rdm_uid_is_broadcast uid \<longleftrightarrow> dev_id uid = 0xffffffff"

definition rdm_uid_is_null :: "rdm_uid \<Rightarrow> bool" where
  "rdm_uid_is_null uid \<longleftrightarrow> man_id uid = 0 \<and> dev_id uid = 0"

definition rdm_uid_is_target :: "rdm_uid \<Rightarrow> rdm_uid \<Rightarrow> bool" where
  "rdm_uid_is_target uid alias \<longleftrightarrow>
     ((man_id alias = 0xffff \<or> man_id alias = man_id uid) \<and> dev_id alias = 0xffffffff) \<or>
     rdm_uid_is_eq uid alias"

text \<open>
  Build-time configuration and hardware data. The macros \<open>DMX_NUM_MAX\<close>,
  \<open>RDM_UID_MANUFACTURER_ID\<close>, \<open>RDM_UID_DEVICE_ID\<close>,
  \<open>RDM_RESPONDER_PIDS_MAX\<close> and \<open>configTICK_RATE_HZ\<close> are defined in headers
  outside the sources at hand, and the 8-byte MAC buffer is filled by
  \<open>esp_efuse_mac_get_default\<close>; all of them are parameters of the model.
\<close>

record platform =
  DMX_NUM_MAX :: nat
  RDM_UID_MANUFACTURER_ID :: u16
  RDM_UID_DEVICE_ID :: u32
  efuse_mac :: "u8 list"
  RDM_RESPONDER_PIDS_MAX :: nat
  configTICK_RATE_HZ :: u32

text \<open>\<open>*(uint32_t *)(mac + 2)\<close>: a little-endian load of bytes 2 to 5 of the MAC buffer.\<close>

definition mac_word :: "u8 list \<Rightarrow> u32" where
  "mac_word mac =
     ucast (mac ! 2) OR push_bit 8 (ucast (mac ! 3)) OR
     push_bit 16 (ucast (mac ! 4)) OR push_bit 24 (ucast (mac ! 5))"

text \<open>
  \<open>rdm_uid_get\<close>. The process-wide \<open>rdm_binding_uid\<close> is passed in and returned;
  the out-parameter \<open>uid\<close> is \<open>None\<close> for a null pointer and otherwise holds the
  caller's current value, returned updated. The port number is a \<open>nat\<close>. The
  \<open>#else\<close> branch of the initialisation reads the configured device id.
\<close>

definition rdm_uid_get ::
  "platform \<Rightarrow> rdm_uid \<Rightarrow> nat \<Rightarrow> rdm_uid option \<Rightarrow> rdm_uid \<times> rdm_uid option" where
  "rdm_uid_get cfg rdm_binding_uid dmx_num uid =
     (let binding =
            (if rdm_uid_is_null rdm_binding_uid then
               \<lparr>man_id = RDM_UID_MANUFACTURER_ID cfg,
                dev_id = (if RDM_UID_DEVICE_ID cfg = 0xffffffff
                          then bswap32 (mac_word (efuse_mac cfg))
                          else RDM_UID_DEVICE_ID cfg)\<rparr>
             else rdm_binding_uid)
      in if dmx_num \<ge> DMX_NUM_MAX cfg \<or> uid = None then (binding, uid)
         else
           let last_octet = (ucast (dev_id binding) :: u8) + of_nat dmx_num
           in (binding,
               Some \<lparr>man_id = man_id binding,
                     dev_id = (dev_id binding AND 0xffffff00) OR ucast last_octet\<rparr>))"

section \<open>Discovery responses (esp_rdm.c)\<close>

text \<open>
  Modelled from the spec: the wire constants of \<open>rdm_constants.h\<close>, a header that is
  not among the sources. The spec gives the preamble byte \<open>0xFE\<close>, the delimiter
  \<open>0xAA\<close>, the start code \<open>0xCC\<close>, the sub-start-code \<open>0x01\<close>, a 24-byte header
  followed by a 16-bit checksum, command class \<open>0x10\<close> and parameter id \<open>0x0001\<close> for
  \<open>DISC_UNIQUE_BRANCH\<close>, and response command classes as request class plus one.
\<close>

definition RDM_PREAMBLE :: u8 where "RDM_PREAMBLE = 0xfe"
definition RDM_DELIMITER :: u8 where "RDM_DELIMITER = 0xaa"
definition RDM_SC :: u8 where "RDM_SC = 0xcc"
definition RDM_SUB_SC :: u8 where "RDM_SUB_SC = 0x01"
definition RDM_BASE_PACKET_SIZE :: nat where "RDM_BASE_PACKET_SIZE = 26"
definition RDM_CC_DISC_COMMAND :: u8 where "RDM_CC_DISC_COMMAND = 0x10"
definition RDM_CC_DISC_COMMAND_RESPONSE :: u8 where "RDM_CC_DISC_COMMAND_RESPONSE = 0x11"
definition RDM_CC_GET_COMMAND :: u8 where "RDM_CC_GET_COMMAND = 0x20"
definition RDM_CC_SET_COMMAND :: u8 where "RDM_CC_SET_COMMAND = 0x30"
definition RDM_PID_DISC_UNIQUE_BRANCH :: u16 where "RDM_PID_DISC_UNIQUE_BRANCH = 0x0001"

text \<open>
  In this file \<open>rdm_uid_t\<close> is a 64-bit integer holding the 48-bit UID. The decoder
  and the encoder address its bytes through \<open>(uint8_t *)&uid\<close>.
\<close>

definition get_byte :: "'a::len word \<Rightarrow> nat \<Rightarrow> u8" where
  "get_byte w i = ucast (drop_bit (8 * i) w)"

definition set_byte :: "'a::len word \<Rightarrow> nat \<Rightarrow> u8 \<Rightarrow> 'a word" where
  "set_byte w i b = (w AND NOT (push_bit (8 * i) 0xff)) OR push_bit (8 * i) (ucast b)"

text \<open>
  A receive buffer is a list of bytes. A read past its end is undefined behaviour in C;
  the model returns \<open>None\<close> for it.
\<close>

definition byte_at :: "u8 list \<Rightarrow> nat \<Rightarrow> u8 option" where
  "byte_at buf i = (if i < length buf then Some (buf ! i) else None)"

definition bytes_at :: "u8 list \<Rightarrow> nat \<Rightarrow> nat \<Rightarrow> u8 list option" where
  "bytes_at buf off n = (if off + n \<le> length buf then Some (take n (drop off buf)) else None)"

text \<open>A little-endian 16-bit load, \<open>*(uint16_t *)p\<close>, from two bytes.\<close>

definition le16 :: "u8 \<Rightarrow> u8 \<Rightarrow> u16" where
  "le16 b0 b1 = ucast b0 OR push_bit 8 (ucast b1)"

text \<open>
  Modelled from the spec: \<open>buf_to_uid\<close>, an inline helper of a header that is not among
  the sources. The spec puts UIDs on the wire as six bytes, big-endian.
\<close>

definition buf_to_uid :: "u8 list \<Rightarrow> u64" where
  "buf_to_uid buf = foldl (\<lambda>acc b. push_bit 8 acc OR ucast b) 0 (take 6 buf)"

record rdm_event =
  ev_destination_uid :: u64
  ev_source_uid :: u64
  ev_tn :: u8
  ev_port_id :: u8
  ev_message_count :: u8
  ev_sub_device :: u16
  ev_cc :: u8
  ev_pid :: u16
  ev_pdl :: u8
  checksum_is_valid :: bool

text \<open>\<open>for (; preamble_len < 7; ++preamble_len) if (response[preamble_len] == RDM_DELIMITER) break;\<close>\<close>

function find_delimiter :: "u8 list \<Rightarrow> nat \<Rightarrow> nat option" where
  "find_delimiter response preamble_len =
     (if preamble_len < 7 then
        (case byte_at response preamble_len of
           None \<Rightarrow> None
         | Some b \<Rightarrow>
             if b = RDM_DELIMITER then Some preamble_len
             else find_delimiter response (preamble_len + 1))
      else Some preamble_len)"
  by pat_completeness auto
termination
  by (relation "measure (\<lambda>(response, preamble_len). 7 - preamble_len)") auto

text \<open>
  \<open>for (int i = 5, j = 0; i >= 0; --i, j += 2)\<close>: byte \<open>i\<close> of the UID is rebuilt from
  \<open>response[j]\<close> and \<open>response[j + 1]\<close>, and the 16-bit sum grows by that byte plus
  \<open>0xff\<close>.
\<close>

function decode_uid_loop ::
  "u8 list \<Rightarrow> int \<Rightarrow> nat \<Rightarrow> u64 \<Rightarrow> u16 \<Rightarrow> (u64 \<times> u16) option" where
  "decode_uid_loop response i j uid sum_acc =
     (if i \<ge> 0 then
        (case (byte_at response j, byte_at response (j + 1)) of
           (Some r0, Some r1) \<Rightarrow>
             let b = (r0 AND 0x55) OR (r1 AND 0xaa)
             in decode_uid_loop response (i - 1) (j + 2)
                  (set_byte uid (nat i) b) (sum_acc + (ucast b + 0xff))
         | _ \<Rightarrow> None)
      else Some (uid, sum_acc))"
  by pat_completeness auto
termination
  by (relation "measure (\<lambda>(response, i, j, uid, sum_acc). nat (i + 1))") auto

text \<open>
  \<open>for (int i = 1, j = 12; i >= 0; --i, j += 2)\<close>: the two bytes of the received
  checksum. Both bytes of the local \<open>checksum\<close> are written, so its initial content
  does not matter.
\<close>

function decode_checksum_loop :: "u8 list \<Rightarrow> int \<Rightarrow> nat \<Rightarrow> u16 \<Rightarrow> u16 option" where
  "decode_checksum_loop response i j checksum =
     (if i \<ge> 0 then
        (case (byte_at response j, byte_at response (j + 1)) of
           (Some r0, Some r1) \<Rightarrow>
             decode_checksum_loop response (i - 1) (j + 2)
               (set_byte checksum (nat i) ((r0 AND 0x55) OR (r1 AND 0xaa)))
         | _ \<Rightarrow> None)
      else Some checksum)"
  by pat_completeness auto
termination
  by (relation "measure (\<lambda>(response, i, j, checksum). nat (i + 1))") auto

text \<open>
  \<open>rdm_parse\<close>. The pointers \<open>data\<close> and \<open>event\<close> are valid (the two
  \<open>RDM_CHECK\<close>s pass); the event is passed in and returned, since only some of its
  fields are written. The result is \<open>None\<close> when the code reads past the buffer.
  The offsets of the fields of \<open>rdm_data_t\<close> in a standard frame are those of the
  spec's header layout: message length at 2, destination UID at 3, source UID at 9,
  transaction number at 15, port id at 16, message count at 17, sub-device at 18,
  command class at 20, parameter id at 21, parameter data length at 23.
\<close>

definition rdm_parse :: "u8 list \<Rightarrow> nat \<Rightarrow> rdm_event \<Rightarrow> (bool \<times> rdm_event) option" where
  "rdm_parse data size_arg event =
     (case byte_at data 0 of
        None \<Rightarrow> None
      | Some sc \<Rightarrow>
          if (sc = RDM_PREAMBLE \<or> sc = RDM_DELIMITER) \<and> size_arg > 17 then
            (case find_delimiter data 0 of
               None \<Rightarrow> None
             | Some preamble_len \<Rightarrow>
                 (case byte_at data preamble_len of
                    None \<Rightarrow> None
                  | Some d \<Rightarrow>
                      if d \<noteq> RDM_DELIMITER \<or> size_arg < preamble_len + 17 then Some (False, event)
                      else
                        let response = drop (preamble_len + 1) data
                        in (case decode_uid_loop response 5 0 0 0 of
                              None \<Rightarrow> None
                            | Some (uid, sum_acc) \<Rightarrow>
                                (case decode_checksum_loop response 1 12 0 of
                                   None \<Rightarrow> None
                                 | Some checksum \<Rightarrow>
                                     Some (sum_acc = checksum,
                                           event\<lparr>ev_cc := RDM_CC_DISC_COMMAND_RESPONSE,
                                                 ev_pid := RDM_PID_DISC_UNIQUE_BRANCH,
                                                 ev_source_uid := uid,
                                                 checksum_is_valid := (sum_acc = checksum)\<rparr>)))))
          else if sc = RDM_SC then
            (case byte_at data 1 of
               None \<Rightarrow> None
             | Some sub_sc \<Rightarrow>
                 if sub_sc = RDM_SUB_SC \<and> size_arg \<ge> RDM_BASE_PACKET_SIZE then
                   (case byte_at data 2 of
                      None \<Rightarrow> None
                    | Some message_len \<Rightarrow>
                        (case (bytes_at data 0 (unat message_len),
                               bytes_at data (unat message_len) 2,
                               bytes_at data 0 24) of
                           (Some body, Some ck, Some h) \<Rightarrow>
                             let sum_acc = foldl (\<lambda>acc b. acc + ucast b) (0 :: u16) body;
                                 checksum = bswap16 (le16 (ck ! 0) (ck ! 1))
                             in Some (sum_acc = checksum,
                                      event\<lparr>checksum_is_valid := (sum_acc = checksum),
                                            ev_destination_uid := buf_to_uid (drop 3 h),
                                            ev_source_uid := buf_to_uid (drop 9 h),
                                            ev_tn := h ! 15,
                                            ev_port_id := h ! 16,
                                            ev_message_count := h ! 17,
                                            ev_sub_device := bswap16 (le16 (h ! 18) (h ! 19)),
                                            ev_cc := h ! 20,
                                            ev_pid := bswap16 (le16 (h ! 21) (h ! 22)),
                                            ev_pdl := h ! 23\<rparr>)
                         | _ \<Rightarrow> None))
                 else Some (False, event))
          else Some (False, event))"

text \<open>
  \<open>for (int i = 8, j = 5; i < 20; i += 2, --j)\<close> of \<open>rdm_send_disc_response\<close>: byte
  \<open>j\<close> of the UID goes out twice, once with \<open>0xaa\<close> and once with \<open>0x55\<close> ORed in.
\<close>

function encode_uid_loop ::
  "u64 \<Rightarrow> nat \<Rightarrow> int \<Rightarrow> u8 list \<Rightarrow> u16 \<Rightarrow> u8 list \<times> u16" where
  "encode_uid_loop uid i j response checksum =
     (if i < 20 then
        encode_uid_loop uid (i + 2) (j - 1)
          (response[i := get_byte uid (nat j) OR 0xaa, i + 1 := get_byte uid (nat j) OR 0x55])
          (checksum + (ucast (get_byte uid (nat j)) + (0xaa + 0x55)))
      else (response, checksum))"
  by pat_completeness auto
termination
  by (relation "measure (\<lambda>(uid, i, j, response, checksum). 20 - i)") auto

text \<open>
  \<open>rdm_send_disc_response\<close>. The result is the 24-byte array handed to
  \<open>dmx_write\<close>, or \<open>None\<close> when one of the two \<open>RDM_CHECK\<close>s returns early; the
  second argument says whether the driver of the port is installed.
\<close>

definition rdm_send_disc_response :: "platform \<Rightarrow> bool \<Rightarrow> nat \<Rightarrow> u64 \<Rightarrow> u8 list option" where
  "rdm_send_disc_response cfg installed dmx_num uid =
     (if \<not> dmx_num < DMX_NUM_MAX cfg then None
      else if \<not> installed then None
      else
        let response0 = replicate 7 RDM_PREAMBLE @ [RDM_DELIMITER] @ replicate 16 0;
            (response, checksum) = encode_uid_loop uid 8 5 response0 0
        in Some (response[20 := ucast (drop_bit 8 checksum OR 0xaa),
                          21 := ucast (drop_bit 8 checksum OR 0x55),
                          22 := ucast (checksum OR 0xaa),
                          23 := ucast (checksum OR 0x55)]))"

section \<open>Errors\<close>

text \<open>
  A failed \<open>assert\<close> aborts the program, and an array access outside the array is
  undefined behaviour; both are results of the model.
\<close>

datatype error = Assertion_failed | Out_of_bounds

section \<open>Memory\<close>

text \<open>
  Buffers that the code reaches through \<open>void *\<close> live in a byte-addressed store; a
  pointer is an address, and \<open>0\<close> is \<open>NULL\<close>. Source and destination share the
  store, so overlapping buffers behave as in C.
\<close>

type_synonym memory = "nat \<Rightarrow> u8"

definition load16 :: "memory \<Rightarrow> nat \<Rightarrow> u16" where
  "load16 mem a = ucast (mem a) OR push_bit 8 (ucast (mem (a + 1)))"

definition load32 :: "memory \<Rightarrow> nat \<Rightarrow> u32" where
  "load32 mem a =
     ucast (mem a) OR push_bit 8 (ucast (mem (a + 1))) OR
     push_bit 16 (ucast (mem (a + 2))) OR push_bit 24 (ucast (mem (a + 3)))"

definition store16 :: "memory \<Rightarrow> nat \<Rightarrow> u16 \<Rightarrow> memory" where
  "store16 mem a v = mem(a := ucast v, a + 1 := ucast (drop_bit 8 v))"

definition store32 :: "memory \<Rightarrow> nat \<Rightarrow> u32 \<Rightarrow> memory" where
  "store32 mem a v =
     mem(a := ucast v, a + 1 := ucast (drop_bit 8 v),
         a + 2 := ucast (drop_bit 16 v), a + 3 := ucast (drop_bit 24 v))"

text \<open>The C library routines the parameter code calls, after the C standard.\<close>

fun strnlen :: "memory \<Rightarrow> nat \<Rightarrow> nat \<Rightarrow> nat" where
  "strnlen mem s 0 = 0"
| "strnlen mem s (Suc maxlen) = (if mem s = 0 then 0 else Suc (strnlen mem (s + 1) maxlen))"

definition memmove :: "memory \<Rightarrow> nat \<Rightarrow> nat \<Rightarrow> nat \<Rightarrow> memory" where
  "memmove mem dst src n = (\<lambda>a. if dst \<le> a \<and> a < dst + n then mem (src + (a - dst)) else mem a)"

definition memcpy :: "memory \<Rightarrow> nat \<Rightarrow> nat \<Rightarrow> nat \<Rightarrow> memory" where
  "memcpy mem dst src n = memmove mem dst src n"

definition strncpy :: "memory \<Rightarrow> nat \<Rightarrow> nat \<Rightarrow> nat \<Rightarrow> memory" where
  "strncpy mem dst src n =
     (\<lambda>a. if dst \<le> a \<and> a < dst + n
          then (if a - dst < strnlen mem src n then mem (src + (a - dst)) else 0)
          else mem a)"

section \<open>Parameter encoder (rdm/utils.c)\<close>

text \<open>
  \<open>rdm_uidcpy\<close> and \<open>rdm_uidmove\<close> on the store. A UID in memory is six bytes
  (\<open>sizeof(rdm_uid_t)\<close>, the size the spec gives the \<open>u\<close> field): the
  manufacturer id at offset 0, the device id at offset 2. \<open>rdm_uidmove\<close> reads the
  whole source UID into a temporary before it writes. Both pointers are valid (the
  asserts pass).
\<close>

definition rdm_uidcpy :: "memory \<Rightarrow> nat \<Rightarrow> u16 \<Rightarrow> u32 \<Rightarrow> memory" where
  "rdm_uidcpy mem destination src_man_id src_dev_id =
     store32 (store16 mem destination (bswap16 src_man_id)) (destination + 2) (bswap32 src_dev_id)"

definition rdm_uidmove :: "memory \<Rightarrow> nat \<Rightarrow> nat \<Rightarrow> memory" where
  "rdm_uidmove mem destination source =
     rdm_uidcpy mem destination (load16 mem source) (load32 mem (source + 2))"

definition rdm_uid_is_null_at :: "memory \<Rightarrow> nat \<Rightarrow> bool" where
  "rdm_uid_is_null_at mem a \<longleftrightarrow>
     rdm_uid_is_null \<lparr>man_id = load16 mem a, dev_id = load32 mem (a + 2)\<rparr>"

definition isxdigit :: "char \<Rightarrow> bool" where
  "isxdigit c \<longleftrightarrow> c \<in> set ''0123456789abcdefABCDEF''"

text \<open>
  A format is a C string: the characters before the first NUL. Reading the character
  at the end of the list reads the terminator.
\<close>

definition c_str :: "string \<Rightarrow> string" where
  "c_str s = takeWhile (\<lambda>c. c \<noteq> CHR 0x00) s"

text \<open>\<open>for (; num_chars <= 16; ++num_chars) if (!isxdigit((int)f[num_chars])) break;\<close>\<close>

function count_xdigits :: "string \<Rightarrow> nat \<Rightarrow> nat" where
  "count_xdigits f num_chars =
     (if num_chars \<le> 16 then
        (if \<not> (num_chars < length f \<and> isxdigit (f ! num_chars)) then num_chars
         else count_xdigits f (num_chars + 1))
      else num_chars)"
  by pat_completeness auto
termination
  by (relation "measure (\<lambda>(f, num_chars). 17 - num_chars)") auto

text \<open>
  One turn of the loop of \<open>rdm_param_parse\<close> at character \<open>c\<close>, with \<open>rest\<close> the
  characters after it. \<open>Return r\<close> is an early \<open>return r\<close>; \<open>Field n s k\<close> is a
  field of \<open>n\<close> bytes that leaves \<open>*is_singleton = s\<close> and has consumed \<open>k\<close> characters
  of \<open>rest\<close> by the time the loop's \<open>++f\<close> has run.
\<close>

datatype parse_step = Return int | Field nat bool nat

definition parse_field :: "char \<Rightarrow> string \<Rightarrow> bool \<Rightarrow> parse_step" where
  "parse_field c rest p_is_singleton =
     (if c = CHR ''b'' \<or> c = CHR ''B'' then Field 1 p_is_singleton 0
      else if c = CHR ''w'' \<or> c = CHR ''W'' then Field 2 p_is_singleton 0
      else if c = CHR ''d'' \<or> c = CHR ''D'' then Field 4 p_is_singleton 0
      else if c = CHR ''u'' \<or> c = CHR ''U'' then Field 6 p_is_singleton 0
      else if c = CHR ''v'' \<or> c = CHR ''V'' then
        (if rest \<noteq> [] \<and> hd rest \<noteq> CHR ''$'' then Return 0 else Field 6 True 0)
      else if c = CHR ''a'' \<or> c = CHR ''A'' then
        (if rest \<noteq> [] \<and> hd rest \<noteq> CHR ''$'' then Return (- 1) else Field 32 True 0)
      else if c = CHR ''#'' then
        (let num_chars = count_xdigits rest 0
         in if num_chars > 16 then Return 0
            else if \<not> (num_chars < length rest \<and>
                        (rest ! num_chars = CHR ''h'' \<or> rest ! num_chars = CHR ''H''))
            then Return 0
            else Field (num_chars div 2 + num_chars mod 2) p_is_singleton (num_chars + 1))
      else if c = CHR ''$'' then
        (if rest \<noteq> [] then Return 0 else Field 0 True 0)
      else Return 0)"

fun param_parse_loop :: "string \<Rightarrow> nat \<Rightarrow> bool \<Rightarrow> int \<times> bool" where
  "param_parse_loop [] param_size p_is_singleton = (int param_size, p_is_singleton)"
| "param_parse_loop (c # rest) param_size p_is_singleton =
     (case parse_field c rest p_is_singleton of
        Return r \<Rightarrow> (r, p_is_singleton)
      | Field field_size singleton consumed \<Rightarrow>
          if param_size + field_size > 231 then (0, singleton)
          else param_parse_loop (drop consumed rest) (param_size + field_size) singleton)"

text \<open>
  \<open>rdm_param_parse\<close>. The C function returns a \<open>size_t\<close> that its caller stores in
  an \<open>int\<close>; the model returns that \<open>int\<close>, so the \<open>return -1\<close> of the string case
  is \<open>- 1\<close>.
\<close>

definition rdm_param_parse :: "string \<Rightarrow> int \<times> bool" where
  "rdm_param_parse format = param_parse_loop (c_str format) 0 (c_str format = [])"

text \<open>
  \<open>strtol(f, &end_ptr, 16)\<close> on the digits of a literal. \<open>rdm_param_parse\<close> has
  accepted the format before the literal is read, so \<open>f\<close> starts with at most 16
  hexadecimal digits followed by \<open>h\<close>: no white space, sign or \<open>0x\<close> prefix. The
  result is a 32-bit \<open>long\<close>, which saturates at \<open>LONG_MAX\<close>.
\<close>

definition xdigit_val :: "char \<Rightarrow> nat" where
  "xdigit_val c =
     (let k = of_char c :: nat
      in if 48 \<le> k \<and> k \<le> 57 then k - 48
         else if 97 \<le> k \<and> k \<le> 102 then k - 87
         else k - 55)"

definition strtol16 :: "string \<Rightarrow> nat \<times> nat" where
  "strtol16 f =
     (let digits = takeWhile isxdigit f;
          v = foldl (\<lambda>acc c. 16 * acc + xdigit_val c) 0 digits
      in (min v 2147483647, length digits))"

text \<open>\<open>for (int j = 0, k = literal_len - 1; j < literal_len; ++j, --k)\<close>\<close>

function emplace_literal :: "memory \<Rightarrow> nat \<Rightarrow> u64 \<Rightarrow> nat \<Rightarrow> nat \<Rightarrow> memory" where
  "emplace_literal mem a literal literal_len j =
     (if j < literal_len
      then emplace_literal (mem(a + j := get_byte literal (literal_len - 1 - j)))
             a literal literal_len (j + 1)
      else mem)"
  by pat_completeness auto
termination
  by (relation "measure (\<lambda>(mem, a, literal, literal_len, j). literal_len - j)") auto

text \<open>
  The inner loop of \<open>rdm_pd_emplace\<close> over the format, from the current character on;
  \<open>n\<close> is the running byte count. The optional UID and the string \<open>break\<close> out of the
  loop. \<open>num - n\<close> is a subtraction of \<open>size_t\<close> values and wraps below zero.
\<close>

function emplace_fields ::
  "string \<Rightarrow> nat \<Rightarrow> nat \<Rightarrow> nat \<Rightarrow> bool \<Rightarrow> memory \<Rightarrow> nat \<Rightarrow> memory \<times> nat" where
  "emplace_fields [] destination source num emplace_nulls mem n = (mem, n)"
| "emplace_fields (c # rest) destination source num emplace_nulls mem n =
     (if c = CHR ''b'' \<or> c = CHR ''B'' then
        emplace_fields rest destination source num emplace_nulls
          (if destination \<noteq> 0 then mem(destination + n := mem (source + n)) else mem)
          (n + 1)
      else if c = CHR ''w'' \<or> c = CHR ''W'' then
        emplace_fields rest destination source num emplace_nulls
          (if destination \<noteq> 0
           then store16 mem (destination + n) (bswap16 (load16 mem (source + n))) else mem)
          (n + 2)
      else if c = CHR ''d'' \<or> c = CHR ''D'' then
        emplace_fields rest destination source num emplace_nulls
          (if destination \<noteq> 0
           then store32 mem (destination + n) (bswap32 (load32 mem (source + n))) else mem)
          (n + 4)
      else if c = CHR ''u'' \<or> c = CHR ''U'' \<or> c = CHR ''v'' \<or> c = CHR ''V'' then
        (if (c = CHR ''v'' \<or> c = CHR ''V'') \<and> \<not> emplace_nulls \<and> source \<noteq> 0 \<and>
            rdm_uid_is_null_at mem (source + n)
         then (mem, n)
         else
           emplace_fields rest destination source num emplace_nulls
             (if destination \<noteq> 0 \<and> source \<noteq> 0
              then rdm_uidmove mem (destination + n) (source + n) else mem)
             (n + 6))
      else if c = CHR ''a'' \<or> c = CHR ''A'' then
        (let len =
               (if source \<noteq> 0 then
                  let avail = (if n \<le> num then num - n else 4294967296 - (n - num));
                      max_len = (if avail < 32 then avail else 32)
                  in strnlen mem (source + n) max_len
                else 32);
             mem' =
               (if destination \<noteq> 0 \<and> source \<noteq> 0 then
                  let moved = memmove mem (destination + n) (source + n) len
                  in if emplace_nulls then moved(destination + n + len := 0) else moved
                else mem)
         in (mem', n + len + (if emplace_nulls then 1 else 0)))
      else if c = CHR ''#'' then
        (let (literal, consumed) = strtol16 rest;
             literal_len = consumed div 2 + consumed mod 2
         in emplace_fields (drop (consumed + 1) rest) destination source num emplace_nulls
              (if destination \<noteq> 0
               then emplace_literal mem (destination + n) (of_nat literal) literal_len 0
               else mem)
              (n + literal_len))
      else emplace_fields rest destination source num emplace_nulls mem n)"
  by pat_completeness auto
termination
  by (relation "measure (\<lambda>(f, destination, source, num, emplace_nulls, mem, n). length f)") auto

text \<open>\<open>for (int i = 0; i < num_params_to_copy; ++i)\<close>: one pass over the format per turn.\<close>

function emplace_params ::
  "string \<Rightarrow> nat \<Rightarrow> nat \<Rightarrow> nat \<Rightarrow> bool \<Rightarrow> int \<Rightarrow> int \<Rightarrow> memory \<Rightarrow> nat \<Rightarrow> memory \<times> nat" where
  "emplace_params format destination source num emplace_nulls num_params_to_copy i mem n =
     (if i < num_params_to_copy then
        (case emplace_fields format destination source num emplace_nulls mem n of
           (mem', n') \<Rightarrow>
             emplace_params format destination source num emplace_nulls num_params_to_copy
               (i + 1) mem' n')
      else (mem, n))"
  by pat_completeness auto
termination
  by (relation "measure (\<lambda>(format, destination, source, num, emplace_nulls,
                            num_params_to_copy, i, mem, n). nat (num_params_to_copy - i))") auto

text \<open>
  \<open>rdm_pd_emplace\<close>: the store after the call and the returned byte count. \<open>num\<close> is
  a \<open>size_t\<close>.
\<close>

definition rdm_pd_emplace ::
  "memory \<Rightarrow> nat \<Rightarrow> string \<Rightarrow> nat \<Rightarrow> nat \<Rightarrow> bool \<Rightarrow> error + memory \<times> nat" where
  "rdm_pd_emplace mem destination format source num emplace_nulls =
     (if destination = 0 \<or> source = 0 then Inl Assertion_failed
      else
        let num = (if num > 231 then 231 else num);
            (param_size, param_is_singleton) = rdm_param_parse format
        in if param_size < 1 then Inr (mem, 0)
           else
             let num_params_to_copy = (if param_is_singleton then 1 else int num div param_size)
             in Inr (emplace_params (c_str format) destination source num emplace_nulls
                       num_params_to_copy 0 mem 0))"

section \<open>Driver state (dmx/struct.h)\<close>

text \<open>
  The structure declarations are in headers that are not among the sources; the
  records hold the fields that the functions below read and write.
  \<open>rdm_pid_description_t\<close> follows the parameter descriptor of the spec.
\<close>

record rdm_pid_description =
  desc_pid :: u16
  pdl_size :: u8
  data_type :: u8
  desc_cc :: u8
  desc_unit :: u8
  desc_prefix :: u8
  min_value :: u32
  max_value :: u32
  default_value :: u32
  description :: string

text \<open>
  One slot of \<open>driver->rdm_cbs\<close>. Pointers to parameter storage, context and
  callbacks are addresses, \<open>0\<close> for \<open>NULL\<close>.
\<close>

record rdm_cb =
  cb_desc :: rdm_pid_description
  cb_param_str :: string
  cb_param :: nat
  cb_context :: nat
  cb_user_cb :: nat
  cb_driver_cb :: nat

text \<open>
  The driver of one port: the transaction number, the parameter table
  (\<open>rdm_cbs\<close> is the array of \<open>RDM_RESPONDER_PIDS_MAX\<close> slots, \<open>num_rdm_cbs\<close> the
  count of slots in use) and the backing region of the bump allocator
  (\<open>pd\<close> its address, \<open>pd_size\<close> and \<open>pd_head\<close> of type \<open>size_t\<close>).
\<close>

record dmx_driver =
  drv_tn :: u8
  num_rdm_cbs :: nat
  rdm_cbs :: "rdm_cb list"
  pd :: nat
  pd_size :: u32
  pd_head :: u32

text \<open>
  A port's entry of the global \<open>dmx_driver\<close> array is an option: \<open>None\<close> when no
  driver is installed there, which is what \<open>dmx_driver_is_installed(dmx_num)\<close>
  tests.
\<close>

section \<open>Parameter storage and the parameter table (rdm/utils.c)\<close>

text \<open>
  \<open>rdm_pd_alloc\<close>: the driver after the call and the returned pointer, \<open>None\<close> for
  \<open>NULL\<close>. \<open>driver->pd_head + size\<close> is \<open>size_t\<close> arithmetic.
\<close>

definition rdm_pd_alloc ::
  "platform \<Rightarrow> nat \<Rightarrow> dmx_driver option \<Rightarrow> u32 \<Rightarrow> error + dmx_driver \<times> nat option" where
  "rdm_pd_alloc cfg dmx_num drv size_arg =
     (case drv of
        None \<Rightarrow> Inl Assertion_failed
      | Some driver \<Rightarrow>
          if \<not> dmx_num < DMX_NUM_MAX cfg then Inl Assertion_failed
          else if size_arg = 0 then Inr (driver, None)
          else if pd_head driver + size_arg \<le> pd_size driver
          then Inr (driver\<lparr>pd_head := pd_head driver + size_arg\<rparr>,
                    Some (pd driver + unat (pd_head driver)))
          else Inr (driver, None))"

text \<open>
  \<open>for (; i < driver->num_rdm_cbs; ++i) if (driver->rdm_cbs[i].desc.pid == pid) break;\<close>
  The result is the value of \<open>i\<close> after the loop.
\<close>

function find_pid :: "rdm_cb list \<Rightarrow> nat \<Rightarrow> u16 \<Rightarrow> nat \<Rightarrow> error + nat" where
  "find_pid cbs num p i =
     (if i < num then
        (if \<not> i < length cbs then Inl Out_of_bounds
         else if desc_pid (cb_desc (cbs ! i)) = p then Inr i
         else find_pid cbs num p (i + 1))
      else Inr i)"
  by pat_completeness auto
termination
  by (relation "measure (\<lambda>(cbs, num, p, i). num - i)") auto

text \<open>Modelled from the spec: \<open>RDM_SUB_DEVICE_ROOT\<close>, the root device, sub-device 0.\<close>

definition RDM_SUB_DEVICE_ROOT :: nat where "RDM_SUB_DEVICE_ROOT = 0"

text \<open>
  \<open>rdm_register_parameter\<close>: the driver after the call and the returned flag. The
  descriptor pointer is valid; \<open>driver_cb\<close> is an address.
\<close>

definition rdm_register_parameter ::
  "platform \<Rightarrow> nat \<Rightarrow> dmx_driver option \<Rightarrow> nat \<Rightarrow> rdm_pid_description \<Rightarrow> string \<Rightarrow>
   nat \<Rightarrow> nat \<Rightarrow> nat \<Rightarrow> nat \<Rightarrow> error + dmx_driver \<times> bool" where
  "rdm_register_parameter cfg dmx_num drv sub_device desc param_str driver_cb param user_cb context =
     (case drv of
        None \<Rightarrow> Inl Assertion_failed
      | Some driver \<Rightarrow>
          if \<not> dmx_num < DMX_NUM_MAX cfg \<or> \<not> sub_device < 513 \<or> driver_cb = 0
          then Inl Assertion_failed
          else if sub_device \<noteq> RDM_SUB_DEVICE_ROOT then Inr (driver, False)
          else
            (case find_pid (rdm_cbs driver) (num_rdm_cbs driver) (desc_pid desc) 0 of
               Inl e \<Rightarrow> Inl e
             | Inr i \<Rightarrow>
                 if i = RDM_RESPONDER_PIDS_MAX cfg then Inr (driver, False)
                 else if \<not> i < length (rdm_cbs driver) then Inl Out_of_bounds
                 else
                   Inr (driver\<lparr>rdm_cbs := (rdm_cbs driver)
                                  [i := \<lparr>cb_desc = desc, cb_param_str = param_str,
                                         cb_param = param, cb_context = context,
                                         cb_user_cb = user_cb, cb_driver_cb = driver_cb\<rparr>],
                               num_rdm_cbs := num_rdm_cbs driver + 1\<rparr>,
                        True)))"

text \<open>
  Modelled from the spec: \<open>RDM_DS_ASCII\<close>, the data type of text parameters. The
  header that defines it is not among the sources; the value is that of \<open>DS_ASCII\<close>
  in ANSI E1.20, Table A-15.
\<close>

definition RDM_DS_ASCII :: u8 where "RDM_DS_ASCII = 0x02"

text \<open>
  \<open>rdm_get_parameter\<close>: the store, the content of the caller's size cell and the
  returned flag. \<open>param\<close> is the address of the caller's buffer.
\<close>

definition rdm_get_parameter ::
  "dmx_driver \<Rightarrow> u16 \<Rightarrow> nat \<Rightarrow> nat \<Rightarrow> memory \<Rightarrow> error + memory \<times> nat \<times> bool" where
  "rdm_get_parameter driver p param size_cell mem =
     (case find_pid (rdm_cbs driver) (num_rdm_cbs driver) p 0 of
        Inl e \<Rightarrow> Inl e
      | Inr i \<Rightarrow>
          let found = i < num_rdm_cbs driver;
              pd_ptr = (if found then cb_param (rdm_cbs driver ! i) else 0)
          in if pd_ptr \<noteq> 0 then
               (let desc = cb_desc (rdm_cbs driver ! i)
                in if data_type desc = RDM_DS_ASCII then
                     (let size' = strnlen mem pd_ptr size_cell
                      in Inr (strncpy mem param pd_ptr size', size', True))
                   else
                     (let size' = (if size_cell < unat (pdl_size desc) then size_cell
                                   else unat (pdl_size desc))
                      in Inr (memcpy mem param pd_ptr size', size', True)))
             else Inr (mem, size_cell, False))"

section \<open>Controller requests (rdm/utils.c)\<close>

text \<open>
  The response types and error codes are enumerations of headers that are not among
  the sources; only the named values matter to the code, every other value of a
  received response type is \<open>RDM_RESPONSE_TYPE_OTHER\<close>, every other error code
  \<open>DMX_ERR_OTHER\<close>. \<open>DMX_OK\<close> is the zero error code.
\<close>

datatype rdm_response_type =
    RDM_RESPONSE_TYPE_ACK
  | RDM_RESPONSE_TYPE_ACK_TIMER
  | RDM_RESPONSE_TYPE_NACK_REASON
  | RDM_RESPONSE_TYPE_ACK_OVERFLOW
  | RDM_RESPONSE_TYPE_INVALID
  | RDM_RESPONSE_TYPE_NONE
  | RDM_RESPONSE_TYPE_OTHER u8

datatype dmx_err = DMX_OK | DMX_ERR_TIMEOUT | DMX_ERR_OTHER nat

text \<open>
  \<open>rdm_header_t\<close>. In C \<open>port_id\<close> and \<open>response_type\<close> share one byte; a request
  uses it as \<open>port_id\<close>, a response as \<open>response_type\<close>.
\<close>

record rdm_header =
  dest_uid :: rdm_uid
  src_uid :: rdm_uid
  tn :: u8
  port_id :: u8
  response_type :: rdm_response_type
  message_count :: u8
  sub_device :: u16
  cc :: u8
  pid :: u16
  pdl :: u8

record rdm_ack =
  ack_err :: dmx_err
  ack_size :: nat
  ack_src_uid :: rdm_uid
  ack_message_count :: u8
  ack_type :: rdm_response_type
  ack_timer :: u32

text \<open>Modelled from the spec: \<open>RDM_SUB_DEVICE_ALL\<close>, the all-sub-devices address \<open>0xFFFF\<close>.\<close>

definition RDM_SUB_DEVICE_ALL :: u16 where "RDM_SUB_DEVICE_ALL = 0xffff"

text \<open>
  What the bus and the rest of the driver answer during one call of
  \<open>rdm_send_request\<close>: the functions \<open>xSemaphoreTakeRecursive\<close>,
  \<open>dmx_wait_sent\<close>, \<open>dmx_write_rdm\<close>, \<open>dmx_receive\<close> and \<open>dmx_read_rdm\<close> are not
  among the sources, so their results are inputs of the model. \<open>read_rdm_resp\<close> is
  the content of \<open>resp\<close> after \<open>dmx_read_rdm\<close>, \<open>read_pd_word\<close> the 16-bit word at
  \<open>pd_out\<close>.
\<close>

record bus_env =
  mux_taken :: bool
  wait_sent_ok :: bool
  write_rdm_size :: nat
  receive_size :: nat
  receive_err :: dmx_err
  read_rdm_size :: nat
  read_rdm_resp :: rdm_header
  read_pd_word :: u16

datatype bus_call =
  Take_mux | Give_mux | Wait_sent | Write_rdm | Send | Receive | Read_rdm

text \<open>
  Modelled from the spec: \<open>dmx_send\<close> of \<open>esp_dmx.c\<close>, which is not among the
  sources. It places the written packet on the wire; the spec has the transaction
  number incremented modulo 256 after each controller request placed on the wire.
\<close>

definition dmx_send :: "dmx_driver \<Rightarrow> nat \<Rightarrow> dmx_driver" where
  "dmx_send driver size_arg = driver\<lparr>drv_tn := drv_tn driver + 1\<rparr>"

text \<open>\<open>pdMS_TO_TICKS\<close> of FreeRTOS, computed on 32-bit ticks.\<close>

definition pdMS_TO_TICKS :: "platform \<Rightarrow> u32 \<Rightarrow> u32" where
  "pdMS_TO_TICKS cfg ms = (ms * configTICK_RATE_HZ cfg) div 1000"

record send_result =
  sr_ret :: bool
  sr_header :: rdm_header
  sr_ack :: "rdm_ack option"
  sr_pdl :: nat
  sr_driver :: dmx_driver
  sr_binding_uid :: rdm_uid
  sr_calls :: "bus_call list"

definition null_uid :: rdm_uid where
  "null_uid = \<lparr>man_id = 0, dev_id = 0\<rparr>"

text \<open>The asserts at the head of \<open>rdm_send_request\<close>; the pointers \<open>header\<close> and \<open>pdl\<close> are valid.\<close>

definition send_request_asserts ::
  "platform \<Rightarrow> nat \<Rightarrow> dmx_driver option \<Rightarrow> rdm_header \<Rightarrow> bool" where
  "send_request_asserts cfg dmx_num drv header \<longleftrightarrow>
     dmx_num < DMX_NUM_MAX cfg \<and>
     \<not> rdm_uid_is_null (dest_uid header) \<and>
     \<not> rdm_uid_is_broadcast (src_uid header) \<and>
     (cc header = RDM_CC_DISC_COMMAND \<or> cc header = RDM_CC_GET_COMMAND \<or>
      cc header = RDM_CC_SET_COMMAND) \<and>
     (sub_device header < 513 \<or>
      (sub_device header = RDM_SUB_DEVICE_ALL \<and> cc header \<noteq> RDM_CC_GET_COMMAND)) \<and>
     pdl header \<le> 231 \<and>
     drv \<noteq> None"

text \<open>The test on the response in \<open>rdm_send_request\<close>: the response type to report.\<close>

definition classify_response :: "bus_env \<Rightarrow> rdm_header \<Rightarrow> rdm_response_type" where
  "classify_response env header =
     (let resp = read_rdm_resp env
      in if read_rdm_size env = 0 then RDM_RESPONSE_TYPE_INVALID
         else if response_type resp \<noteq> RDM_RESPONSE_TYPE_ACK \<and>
                 response_type resp \<noteq> RDM_RESPONSE_TYPE_ACK_TIMER \<and>
                 response_type resp \<noteq> RDM_RESPONSE_TYPE_NACK_REASON \<and>
                 response_type resp \<noteq> RDM_RESPONSE_TYPE_ACK_OVERFLOW
         then RDM_RESPONSE_TYPE_INVALID
         else if pid header \<noteq> RDM_PID_DISC_UNIQUE_BRANCH \<and>
                 (uint (cc header) \<noteq> uint (cc resp) - 1 \<or> pid header \<noteq> pid resp \<or>
                  tn header \<noteq> tn resp \<or>
                  \<not> rdm_uid_is_target (src_uid resp) (dest_uid header) \<or>
                  \<not> rdm_uid_is_eq (dest_uid resp) (src_uid header))
         then RDM_RESPONSE_TYPE_INVALID
         else response_type resp)"

text \<open>
  The first statements of \<open>rdm_send_request\<close>, up to the test for an expected
  response: the optional header fields are filled in, the transaction number is read
  from the driver and the message count is cleared. The result is the binding UID
  (which \<open>rdm_uid_get\<close> may initialise) and the header as it is sent.
\<close>

definition request_header ::
  "platform \<Rightarrow> nat \<Rightarrow> dmx_driver \<Rightarrow> rdm_uid \<Rightarrow> rdm_header \<Rightarrow> rdm_uid \<times> rdm_header" where
  "request_header cfg dmx_num driver rdm_binding_uid header0 =
     (let header1 = (if port_id header0 = 0
                     then header0\<lparr>port_id := of_nat (dmx_num + 1)\<rparr> else header0);
          (binding, src) =
            (if rdm_uid_is_null (src_uid header1)
             then rdm_uid_get cfg rdm_binding_uid dmx_num (Some (src_uid header1))
             else (rdm_binding_uid, Some (src_uid header1)));
          header2 = (case src of Some u \<Rightarrow> header1\<lparr>src_uid := u\<rparr> | None \<Rightarrow> header1)
      in (binding, header2\<lparr>tn := drv_tn driver, message_count := 0\<rparr>))"

text \<open>
  The last part of \<open>rdm_send_request\<close>, from \<open>dmx_read_rdm\<close> on: the returned flag,
  the acknowledgement and the cell \<open>*pdl\<close>.
\<close>

definition handle_response ::
  "platform \<Rightarrow> bus_env \<Rightarrow> rdm_header \<Rightarrow> rdm_ack option \<Rightarrow> bool \<times> rdm_ack option \<times> nat" where
  "handle_response cfg env header ack =
     (let response_type' = classify_response env header;
          resp = (if read_rdm_size env = 0 then (read_rdm_resp env)\<lparr>pdl := 0\<rparr>
                  else read_rdm_resp env);
          decoded =
            (if response_type' = RDM_RESPONSE_TYPE_ACK_TIMER
             then pdMS_TO_TICKS cfg (ucast (bswap16 (read_pd_word env)) * 10)
             else if response_type' = RDM_RESPONSE_TYPE_NACK_REASON
             then ucast (bswap16 (read_pd_word env))
             else 0)
      in (response_type' = RDM_RESPONSE_TYPE_ACK,
          map_option (\<lambda>a. a\<lparr>ack_type := response_type',
                                ack_src_uid := src_uid resp,
                                ack_message_count := message_count resp,
                                ack_timer := decoded\<rparr>) ack,
          unat (pdl resp)))"

text \<open>The acknowledgement of the paths that end without a decoded response.\<close>

definition clear_ack :: "rdm_response_type \<Rightarrow> rdm_ack \<Rightarrow> rdm_ack" where
  "clear_ack t a = a\<lparr>ack_src_uid := null_uid, ack_message_count := 0, ack_type := t\<rparr>"

text \<open>
  \<open>rdm_send_request\<close>. The header, the acknowledgement (\<open>None\<close> for a null
  \<open>ack\<close>), the cell \<open>*pdl\<close>, the driver and the binding UID are passed in and
  returned; \<open>sr_calls\<close> lists the calls into the bus in the order made.
\<close>

definition rdm_send_request ::
  "platform \<Rightarrow> bus_env \<Rightarrow> nat \<Rightarrow> dmx_driver option \<Rightarrow> rdm_uid \<Rightarrow>
   rdm_header \<Rightarrow> nat \<Rightarrow> rdm_ack option \<Rightarrow> error + send_result" where
  "rdm_send_request cfg env dmx_num drv rdm_binding_uid header0 pdl_cell ack =
     (case drv of
        None \<Rightarrow> Inl Assertion_failed
      | Some driver \<Rightarrow>
          if \<not> send_request_asserts cfg dmx_num drv header0 then Inl Assertion_failed
          else
            let (binding, header) = request_header cfg dmx_num driver rdm_binding_uid header0;
                response_expected =
                  (\<not> rdm_uid_is_broadcast (dest_uid header) \<or>
                   (pid header = RDM_PID_DISC_UNIQUE_BRANCH \<and> cc header = RDM_CC_DISC_COMMAND));
                result = \<lparr>sr_ret = False, sr_header = header, sr_ack = ack, sr_pdl = pdl_cell,
                          sr_driver = driver, sr_binding_uid = binding, sr_calls = [Take_mux]\<rparr>
            in if \<not> mux_taken env then Inr result
               else if \<not> wait_sent_ok env
               then Inr (result\<lparr>sr_calls := [Take_mux, Wait_sent, Give_mux]\<rparr>)
               else
                 let sent = dmx_send driver (write_rdm_size env);
                     calls = [Take_mux, Wait_sent, Write_rdm, Send]
                 in if response_expected then
                      (let size_arg = receive_size env;
                           ack1 = map_option (\<lambda>a. a\<lparr>ack_err := receive_err env,
                                                       ack_size := size_arg\<rparr>) ack
                       in if receive_err env \<noteq> DMX_OK \<and> receive_err env \<noteq> DMX_ERR_TIMEOUT then
                            Inr (result\<lparr>
                              sr_ack := map_option (clear_ack RDM_RESPONSE_TYPE_INVALID) ack1,
                              sr_driver := sent,
                              sr_calls := calls @ [Receive, Give_mux]\<rparr>)
                          else if size_arg = 0 then
                            Inr (result\<lparr>
                              sr_ack := map_option (clear_ack RDM_RESPONSE_TYPE_NONE) ack1,
                              sr_driver := sent,
                              sr_calls := calls @ [Receive, Give_mux]\<rparr>)
                          else
                            (case handle_response cfg env header ack1 of
                               (ret, ack2, pdl') \<Rightarrow>
                                 Inr (result\<lparr>
                                   sr_ret := ret,
                                   sr_ack := ack2,
                                   sr_pdl := pdl',
                                   sr_driver := sent,
                                   sr_calls := calls @ [Receive, Read_rdm, Give_mux]\<rparr>)))
                    else
                      Inr (result\<lparr>
                        sr_ack := map_option (\<lambda>a. clear_ack RDM_RESPONSE_TYPE_NONE
                                   (a\<lparr>ack_err := DMX_OK, ack_size := write_rdm_size env\<rparr>)) ack,
                        sr_driver := sent,
                        sr_calls := calls @ [Wait_sent, Give_mux]\<rparr>))"

section \<open>Concrete inputs\<close>

text \<open>A three-port ESP32 with the default configuration, used to run the model.\<close>

definition test_platform :: platform where
  "test_platform =
     \<lparr>DMX_NUM_MAX = 3, RDM_UID_MANUFACTURER_ID = 0x05e0, RDM_UID_DEVICE_ID = 0xffffffff,
      efuse_mac = [0x24, 0x6f, 0x12, 0x34, 0x56, 0x78, 0, 0],
      RDM_RESPONDER_PIDS_MAX = 16, configTICK_RATE_HZ = 1000\<rparr>"

definition test_event :: rdm_event where
  "test_event =
     \<lparr>ev_destination_uid = 0, ev_source_uid = 0, ev_tn = 0, ev_port_id = 0,
      ev_message_count = 0, ev_sub_device = 0, ev_cc = 0, ev_pid = 0, ev_pdl = 0,
      checksum_is_valid = False\<rparr>"

text \<open>The 24 bytes of the spec's discovery-response scenario.\<close>

definition spec_disc_response :: "u8 list" where
  "spec_disc_response =
     [0xfe, 0xfe, 0xfe, 0xfe, 0xfe, 0xfe, 0xfe, 0xaa,
      0xab, 0x57, 0xab, 0x57, 0xab, 0x57, 0xab, 0x57,
      0xf5, 0xaa, 0xf5, 0xaa, 0xf5, 0xaa, 0xf5, 0xaa]"

text \<open>The 24 bytes that \<open>rdm_send_disc_response\<close> sends for the UID \<open>0202:02020202\<close>.\<close>

definition uid_0202_disc_response :: "u8 list" where
  "uid_0202_disc_response =
     [0xfe, 0xfe, 0xfe, 0xfe, 0xfe, 0xfe, 0xfe, 0xaa,
      0xaa, 0x57, 0xaa, 0x57, 0xaa, 0x57, 0xaa, 0x57, 0xaa, 0x57, 0xaa, 0x57,
      0xae, 0x57, 0xae, 0x57]"

text \<open>
  The event as the discovery branch of \<open>rdm_parse\<close> leaves it: command class, parameter
  id, source UID and checksum flag written, every other field as the caller passed it.
\<close>

definition disc_event :: "rdm_event \<Rightarrow> u64 \<Rightarrow> bool \<Rightarrow> rdm_event" where
  "disc_event event uid valid =
     event\<lparr>ev_cc := RDM_CC_DISC_COMMAND_RESPONSE, ev_pid := RDM_PID_DISC_UNIQUE_BRANCH,
           ev_source_uid := uid, checksum_is_valid := valid\<rparr>"

text \<open>The additive checksum of a discovery response: each UID byte plus \<open>0xff\<close>, six times.\<close>

definition disc_sum :: "u64 \<Rightarrow> u16" where
  "disc_sum uid =
     1530 + (ucast (get_byte uid 5) + (ucast (get_byte uid 4) + (ucast (get_byte uid 3) +
     (ucast (get_byte uid 2) + (ucast (get_byte uid 1) + ucast (get_byte uid 0))))))"

text \<open>
  The header comparison as C1 words it: response command class one above the
  request's (as integers), same parameter id and transaction number, response
  destination equal to the request's source, response source targeted by the request's
  destination.
\<close>

definition claimed_response_match :: "rdm_header \<Rightarrow> rdm_header \<Rightarrow> bool" where
  "claimed_response_match header resp \<longleftrightarrow>
     uint (cc resp) = uint (cc header) + 1 \<and> pid resp = pid header \<and> tn resp = tn header \<and>
     rdm_uid_is_eq (dest_uid resp) (src_uid header) \<and>
     rdm_uid_is_target (src_uid resp) (dest_uid header)"

text \<open>
  A request that receives a response: the mutex was taken, the previous packet had left
  the bus, a response was expected, and \<open>dmx_receive\<close> reported data and no error
  other than a timeout.
\<close>

definition response_received :: "bus_env \<Rightarrow> rdm_header \<Rightarrow> bool" where
  "response_received env header \<longleftrightarrow>
     mux_taken env \<and> wait_sent_ok env \<and>
     (\<not> rdm_uid_is_broadcast (dest_uid header) \<or>
      (pid header = RDM_PID_DISC_UNIQUE_BRANCH \<and> cc header = RDM_CC_DISC_COMMAND)) \<and>
     (receive_err env = DMX_OK \<or> receive_err env = DMX_ERR_TIMEOUT) \<and>
     receive_size env \<noteq> 0"

text \<open>The three tests a response has to pass for its type to be reported.\<close>

definition response_valid :: "bus_env \<Rightarrow> rdm_header \<Rightarrow> bool" where
  "response_valid env header \<longleftrightarrow>
     read_rdm_size env \<noteq> 0 \<and>
     response_type (read_rdm_resp env) \<in>
       {RDM_RESPONSE_TYPE_ACK, RDM_RESPONSE_TYPE_ACK_TIMER,
        RDM_RESPONSE_TYPE_NACK_REASON, RDM_RESPONSE_TYPE_ACK_OVERFLOW} \<and>
     (pid header = RDM_PID_DISC_UNIQUE_BRANCH \<or>
      claimed_response_match header (read_rdm_resp env))"

text \<open>An unused slot of the parameter table, and a driver with an empty 16-slot table.\<close>

definition blank_cb :: rdm_cb where
  "blank_cb =
     \<lparr>cb_desc = \<lparr>desc_pid = 0, pdl_size = 0, data_type = 0, desc_cc = 0, desc_unit = 0,
                 desc_prefix = 0, min_value = 0, max_value = 0, default_value = 0,
                 description = []\<rparr>,
      cb_param_str = [], cb_param = 0, cb_context = 0, cb_user_cb = 0, cb_driver_cb = 0\<rparr>"

definition test_driver :: dmx_driver where
  "test_driver =
     \<lparr>drv_tn = 7, num_rdm_cbs = 0, rdm_cbs = replicate 16 blank_cb, pd = 0x3ffb0000,
      pd_size = 100, pd_head = 0\<rparr>"

text \<open>\<open>GET DEVICE_INFO\<close> (parameter id \<open>0x0060\<close>) to the responder \<open>0001:00000002\<close>.\<close>

definition test_request :: rdm_header where
  "test_request =
     \<lparr>dest_uid = \<lparr>man_id = 1, dev_id = 2\<rparr>, src_uid = \<lparr>man_id = 0x05e0, dev_id = 0x12345678\<rparr>,
      tn = 0, port_id = 0, response_type = RDM_RESPONSE_TYPE_NONE, message_count = 0,
      sub_device = 0, cc = RDM_CC_GET_COMMAND, pid = 0x0060, pdl = 0\<rparr>"

text \<open>The matching response of that responder, with a given transaction number and response type.\<close>

definition test_response :: "u8 \<Rightarrow> rdm_response_type \<Rightarrow> rdm_header" where
  "test_response t rt =
     \<lparr>dest_uid = \<lparr>man_id = 0x05e0, dev_id = 0x12345678\<rparr>, src_uid = \<lparr>man_id = 1, dev_id = 2\<rparr>,
      tn = t, port_id = 0, response_type = rt, message_count = 0,
      sub_device = 0, cc = 0x21, pid = 0x0060, pdl = 2\<rparr>"

definition test_env :: "rdm_header \<Rightarrow> bus_env" where
  "test_env resp =
     \<lparr>mux_taken = True, wait_sent_ok = True, write_rdm_size = 26, receive_size = 28,
      receive_err = DMX_OK, read_rdm_size = 28, read_rdm_resp = resp, read_pd_word = 0x3200\<rparr>"

definition test_ack :: rdm_ack where
  "test_ack =
     \<lparr>ack_err = DMX_OK, ack_size = 0, ack_src_uid = null_uid, ack_message_count = 0,
      ack_type = RDM_RESPONSE_TYPE_NONE, ack_timer = 0\<rparr>"

text \<open>A sequence of allocations on one port, stopping at the first failed assert.\<close>

fun pd_alloc_all :: "platform \<Rightarrow> nat \<Rightarrow> dmx_driver \<Rightarrow> u32 list \<Rightarrow> error + dmx_driver" where
  "pd_alloc_all cfg dmx_num driver [] = Inr driver"
| "pd_alloc_all cfg dmx_num driver (size_arg # sizes) =
     (case rdm_pd_alloc cfg dmx_num (Some driver) size_arg of
        Inl e \<Rightarrow> Inl e
      | Inr (driver', ret) \<Rightarrow> pd_alloc_all cfg dmx_num driver' sizes)"

text \<open>The parameter ids of the slots in use, in table order.\<close>

definition registered_pids :: "dmx_driver \<Rightarrow> u16 list" where
  "registered_pids driver =
     map (\<lambda>cb. desc_pid (cb_desc cb)) (take (num_rdm_cbs driver) (rdm_cbs driver))"

text \<open>
  The descriptor of \<open>DMX_START_ADDRESS\<close> (parameter id \<open>0x00f0\<close>), an unsigned 16-bit
  value (data type \<open>0x05\<close>).
\<close>

definition start_address_desc :: rdm_pid_description where
  "start_address_desc =
     \<lparr>desc_pid = 0x00f0, pdl_size = 2, data_type = 0x05, desc_cc = 0x03, desc_unit = 0,
      desc_prefix = 0, min_value = 1, max_value = 512, default_value = 1,
      description = ''DMX Start Address''\<rparr>"

text \<open>A driver whose 16-slot table holds one registration, that of \<open>DMX_START_ADDRESS\<close>.\<close>

definition one_pid_driver :: dmx_driver where
  "one_pid_driver =
     \<lparr>drv_tn = 0, num_rdm_cbs = 1,
      rdm_cbs =
        \<lparr>cb_desc = start_address_desc, cb_param_str = ''w$'', cb_param = 0x3ffb0000,
         cb_context = 0, cb_user_cb = 0, cb_driver_cb = 0x400d1000\<rparr> # replicate 15 blank_cb,
      pd = 0x3ffb0000, pd_size = 100, pd_head = 2\<rparr>"

text \<open>Thirty-three UIDs, a byte and a string: a parameter of 231 bytes.\<close>

definition long_format :: string where
  "long_format = replicate 33 CHR ''u'' @ ''ba''"

section \<open>Port UIDs\<close>

lemma high_octets_mask: "(0xffffff00 :: u32) = NOT (mask 8)"
  by (simp add: mask_eq_exp_minus_1)

lemma low_octet_replaced:
  fixes x :: u32 and b :: u8
  shows "ucast ((x AND 0xffffff00) OR ucast b) = b"
  unfolding high_octets_mask
  by (rule bit_word_eqI) (auto simp: bit_simps)

lemma high_octets_kept:
  fixes x :: u32 and b :: u8
  shows "drop_bit 8 ((x AND 0xffffff00) OR ucast b) = drop_bit 8 x"
  unfolding high_octets_mask
  by (rule bit_word_eqI) (auto simp: bit_simps dest: bit_imp_le_length)

text \<open>
  C5, as amended. For every port index below \<open>DMX_NUM_MAX\<close>, the UID that
  \<open>rdm_uid_get\<close> writes is the process-wide binding UID (initialised by the call
  when it was still null) with the port index added to its last octet modulo 256: the
  manufacturer id and the upper three octets of the device id are those of the
  binding UID, and the last octet is the binding UID's last octet plus the port index,
  not their exclusive or.
\<close>

theorem rdm_uid_get_port_offset:
  assumes "dmx_num < DMX_NUM_MAX cfg"
  shows "\<exists>binding uid.
           rdm_uid_get cfg rdm_binding_uid dmx_num (Some u) = (binding, Some uid) \<and>
           binding = fst (rdm_uid_get cfg rdm_binding_uid dmx_num None) \<and>
           (if rdm_uid_is_null rdm_binding_uid then man_id binding = RDM_UID_MANUFACTURER_ID cfg
            else binding = rdm_binding_uid) \<and>
           man_id uid = man_id binding \<and>
           drop_bit 8 (dev_id uid) = drop_bit 8 (dev_id binding) \<and>
           (ucast (dev_id uid) :: u8) = ucast (dev_id binding) + of_nat dmx_num"
proof -
  define binding where "binding = fst (rdm_uid_get cfg rdm_binding_uid dmx_num None)"
  define last_octet :: u8 where "last_octet = ucast (dev_id binding) + of_nat dmx_num"
  define uid where
    "uid = \<lparr>man_id = man_id binding, dev_id = (dev_id binding AND 0xffffff00) OR ucast last_octet\<rparr>"
  have run: "rdm_uid_get cfg rdm_binding_uid dmx_num (Some u) = (binding, Some uid)"
    using assms by (simp add: rdm_uid_get_def Let_def binding_def uid_def last_octet_def)
  have init: "if rdm_uid_is_null rdm_binding_uid then man_id binding = RDM_UID_MANUFACTURER_ID cfg
        else binding = rdm_binding_uid"
    by (simp add: rdm_uid_get_def Let_def binding_def)
  have man: "man_id uid = man_id binding"
    by (simp add: uid_def)
  have high: "drop_bit 8 (dev_id uid) = drop_bit 8 (dev_id binding)"
    unfolding uid_def rdm_uid.select_convs by (rule high_octets_kept)
  have low: "(ucast (dev_id uid) :: u8) = ucast (dev_id binding) + of_nat dmx_num"
    unfolding uid_def rdm_uid.select_convs low_octet_replaced by (simp add: last_octet_def)
  from run init man high low show ?thesis
    unfolding binding_def by blast
qed

text \<open>Port 2 of a device whose binding UID ends in \<open>0xff\<close>: the last octet wraps to \<open>0x01\<close>.\<close>

theorem rdm_uid_get_port_offset_witness:
  "2 < DMX_NUM_MAX test_platform \<and>
   rdm_uid_get test_platform \<lparr>man_id = 0x05e0, dev_id = 0x123456ff\<rparr> 2 (Some null_uid) =
     (\<lparr>man_id = 0x05e0, dev_id = 0x123456ff\<rparr>, Some \<lparr>man_id = 0x05e0, dev_id = 0x12345601\<rparr>)"
  using rdm_uid_get_port_offset [of 2 test_platform "\<lparr>man_id = 0x05e0, dev_id = 0x123456ff\<rparr>" null_uid]
  by (simp add: rdm_uid_get_def test_platform_def rdm_uid_is_null_def)

text \<open>
  C5 as stated fails on port 1 of a device whose binding UID is \<open>05e0:12345601\<close>: the
  code returns \<open>05e0:12345602\<close>, the exclusive or would give \<open>05e0:12345600\<close>.
\<close>

theorem rdm_uid_get_xor_counterexample:
  "snd (rdm_uid_get test_platform \<lparr>man_id = 0x05e0, dev_id = 0x12345601\<rparr> 1 (Some null_uid)) =
     Some \<lparr>man_id = 0x05e0, dev_id = 0x12345602\<rparr> \<and>
   (0x12345602 :: u32) \<noteq> 0x12345601 XOR 1"
  by (simp add: rdm_uid_get_def test_platform_def rdm_uid_is_null_def)

section \<open>Discovery response round trip\<close>

lemma bit_index_cases: "n < 8 \<Longrightarrow> n \<in> {0, 1, 2, 3, 4, 5, 6, 7 :: nat}"
  by auto

lemma manchester_byte:
  fixes b :: u8
  shows "((b OR 0xaa) AND 0x55) OR ((b OR 0x55) AND 0xaa) = b"
  apply (rule bit_word_eqI)
  apply simp
  apply (drule bit_index_cases)
  apply (auto simp: bit_simps)
  done

lemma manchester_ucast:
  fixes x :: u16
  shows "((ucast (x OR 0xaa) :: u8) AND 0x55) OR (ucast (x OR 0x55) AND 0xaa) = ucast x"
proof -
  have "(ucast (x OR 0xaa) :: u8) = ucast x OR 0xaa" "(ucast (x OR 0x55) :: u8) = ucast x OR 0x55"
    by (simp_all add: unsigned_or_eq)
  then show ?thesis by (simp add: manchester_byte)
qed

lemma byte_mask: "(0xff :: 'a::len word) = mask 8"
  by (simp add: mask_eq_exp_minus_1)

lemma bit_set_byte:
  "bit (set_byte (w :: 'a::len word) i b) n \<longleftrightarrow>
     (if 8 * i \<le> n \<and> n < 8 * i + 8 then n < LENGTH('a) \<and> bit b (n - 8 * i) else bit w n)"
  unfolding set_byte_def byte_mask
  by (auto simp: bit_simps dest: bit_imp_le_length)

lemma bit_get_byte:
  "bit (get_byte (w :: 'a::len word) i) n \<longleftrightarrow> n < 8 \<and> bit w (8 * i + n)"
  unfolding get_byte_def
  by (auto simp: bit_simps dest: bit_imp_le_length)

lemma uid_reassemble:
  fixes uid :: u64
  assumes "uid < 2 ^ 48"
  shows "set_byte (set_byte (set_byte (set_byte (set_byte (set_byte 0 5 (get_byte uid 5)) 4 (get_byte uid 4))
            3 (get_byte uid 3)) 2 (get_byte uid 2)) (Suc 0) (get_byte uid (Suc 0))) 0 (get_byte uid 0) = uid"
proof (rule bit_word_eqI)
  fix n assume n: "n < LENGTH(64)"
  have "take_bit 48 uid = uid"
    using less_mask_eq [OF assms] by (simp add: take_bit_eq_mask)
  then have "bit uid n = bit (take_bit 48 uid) n" by simp
  then have hi: "\<not> bit uid n" if "48 \<le> n"
    using that by (simp add: bit_simps)
  show "bit (set_byte (set_byte (set_byte (set_byte (set_byte (set_byte (0::u64) 5 (get_byte uid 5)) 4 (get_byte uid 4))
            3 (get_byte uid 3)) 2 (get_byte uid 2)) (Suc 0) (get_byte uid (Suc 0))) 0 (get_byte uid 0)) n = bit uid n"
    using hi n by (auto simp: bit_set_byte bit_get_byte)
qed

lemma checksum_reassemble:
  fixes c :: u16
  shows "set_byte (set_byte 0 (Suc 0) (ucast (drop_bit 8 c))) 0 (ucast c) = c"
  by (rule bit_word_eqI) (auto simp: bit_set_byte bit_simps)

lemma encode_shape:
  assumes "dmx_num < DMX_NUM_MAX cfg"
  shows "rdm_send_disc_response cfg True dmx_num uid =
    Some [0xfe, 0xfe, 0xfe, 0xfe, 0xfe, 0xfe, 0xfe, 0xaa,
          get_byte uid 5 OR 0xaa, get_byte uid 5 OR 0x55,
          get_byte uid 4 OR 0xaa, get_byte uid 4 OR 0x55,
          get_byte uid 3 OR 0xaa, get_byte uid 3 OR 0x55,
          get_byte uid 2 OR 0xaa, get_byte uid 2 OR 0x55,
          get_byte uid 1 OR 0xaa, get_byte uid 1 OR 0x55,
          get_byte uid 0 OR 0xaa, get_byte uid 0 OR 0x55,
          ucast (drop_bit 8 (disc_sum uid) OR 0xaa), ucast (drop_bit 8 (disc_sum uid) OR 0x55),
          ucast (disc_sum uid OR 0xaa), ucast (disc_sum uid OR 0x55)]"
  using assms
  by (simp add: rdm_send_disc_response_def RDM_PREAMBLE_def RDM_DELIMITER_def disc_sum_def
        numeral_eq_Suc)

lemma decode_shape:
  fixes b0 b1 b2 b3 b4 b5 :: u8 and c :: u16
  shows "rdm_parse [0xfe, 0xfe, 0xfe, 0xfe, 0xfe, 0xfe, 0xfe, 0xaa,
          b5 OR 0xaa, b5 OR 0x55, b4 OR 0xaa, b4 OR 0x55, b3 OR 0xaa, b3 OR 0x55,
          b2 OR 0xaa, b2 OR 0x55, b1 OR 0xaa, b1 OR 0x55, b0 OR 0xaa, b0 OR 0x55,
          ucast (drop_bit 8 c OR 0xaa), ucast (drop_bit 8 c OR 0x55),
          ucast (c OR 0xaa), ucast (c OR 0x55)] 24 event =
     Some (1530 + (ucast b5 + (ucast b4 + (ucast b3 + (ucast b2 + (ucast b1 + ucast b0))))) = c,
           disc_event event
             (set_byte (set_byte (set_byte (set_byte (set_byte (set_byte 0 5 b5) 4 b4) 3 b3) 2 b2) (Suc 0) b1) 0 b0)
             (1530 + (ucast b5 + (ucast b4 + (ucast b3 + (ucast b2 + (ucast b1 + ucast b0))))) = c))"
  by (simp add: rdm_parse_def byte_at_def RDM_PREAMBLE_def RDM_DELIMITER_def manchester_byte
        manchester_ucast checksum_reassemble disc_event_def)

text \<open>
  C2. For every 48-bit UID \<open>u\<close> and every valid port with an installed driver,
  \<open>rdm_send_disc_response\<close> sends 24 bytes that start with seven \<open>0xFE\<close> and one
  \<open>0xAA\<close>, and \<open>rdm_parse\<close> on these 24 bytes returns true with the source UID
  \<open>u\<close> and the checksum flag set: the sum recomputed from the recovered bytes (each
  plus \<open>0xFF\<close>) equals the decoded checksum.
\<close>

theorem disc_response_roundtrip:
  assumes "uid < 2 ^ 48" and "dmx_num < DMX_NUM_MAX cfg"
  shows "\<exists>response.
           rdm_send_disc_response cfg True dmx_num uid = Some response \<and>
           length response = 24 \<and>
           take 8 response = [0xfe, 0xfe, 0xfe, 0xfe, 0xfe, 0xfe, 0xfe, 0xaa] \<and>
           rdm_parse response 24 event = Some (True, disc_event event uid True)"
proof -
  let ?response = "[0xfe, 0xfe, 0xfe, 0xfe, 0xfe, 0xfe, 0xfe, 0xaa,
          get_byte uid 5 OR 0xaa, get_byte uid 5 OR 0x55,
          get_byte uid 4 OR 0xaa, get_byte uid 4 OR 0x55,
          get_byte uid 3 OR 0xaa, get_byte uid 3 OR 0x55,
          get_byte uid 2 OR 0xaa, get_byte uid 2 OR 0x55,
          get_byte uid 1 OR 0xaa, get_byte uid 1 OR 0x55,
          get_byte uid 0 OR 0xaa, get_byte uid 0 OR 0x55,
          ucast (drop_bit 8 (disc_sum uid) OR 0xaa), ucast (drop_bit 8 (disc_sum uid) OR 0x55),
          ucast (disc_sum uid OR 0xaa), ucast (disc_sum uid OR 0x55)]"
  have enc: "rdm_send_disc_response cfg True dmx_num uid = Some ?response"
    using assms(2) by (rule encode_shape)
  have dec: "rdm_parse ?response 24 event = Some (True, disc_event event uid True)"
    unfolding decode_shape using uid_reassemble [OF assms(1)]
    by (simp add: disc_sum_def)
  have "length ?response = 24" by simp
  moreover have "take 8 ?response = [0xfe, 0xfe, 0xfe, 0xfe, 0xfe, 0xfe, 0xfe, 0xaa]" by simp
  ultimately show ?thesis using enc dec by blast
qed

text \<open>The UID \<open>05e0:12345678\<close> on port 2.\<close>

theorem disc_response_roundtrip_witness:
  "(0x05e012345678 :: u64) < 2 ^ 48 \<and> 2 < DMX_NUM_MAX test_platform \<and>
   rdm_send_disc_response test_platform True 2 0x05e012345678 =
     Some [0xfe, 0xfe, 0xfe, 0xfe, 0xfe, 0xfe, 0xfe, 0xaa,
           0xaf, 0x55, 0xea, 0xf5, 0xba, 0x57, 0xbe, 0x75, 0xfe, 0x57, 0xfa, 0x7d,
           0xaf, 0x57, 0xfb, 0xf7] \<and>
   rdm_parse [0xfe, 0xfe, 0xfe, 0xfe, 0xfe, 0xfe, 0xfe, 0xaa,
           0xaf, 0x55, 0xea, 0xf5, 0xba, 0x57, 0xbe, 0x75, 0xfe, 0x57, 0xfa, 0x7d,
           0xaf, 0x57, 0xfb, 0xf7] 24 test_event =
     Some (True, disc_event test_event 0x05e012345678 True)"
proof -
  have small: "(0x05e012345678 :: u64) < 2 ^ 48"
    by simp
  have port: "2 < DMX_NUM_MAX test_platform"
    by (simp add: test_platform_def)
  from disc_response_roundtrip [OF small port, of test_event]
  obtain response where
    sent: "rdm_send_disc_response test_platform True 2 0x05e012345678 = Some response" and
    parsed: "rdm_parse response 24 test_event = Some (True, disc_event test_event 0x05e012345678 True)"
    by blast
  have "rdm_send_disc_response test_platform True 2 0x05e012345678 =
     Some [0xfe, 0xfe, 0xfe, 0xfe, 0xfe, 0xfe, 0xfe, 0xaa,
           0xaf, 0x55, 0xea, 0xf5, 0xba, 0x57, 0xbe, 0x75, 0xfe, 0x57, 0xfa, 0x7d,
           0xaf, 0x57, 0xfb, 0xf7]"
    by (simp add: encode_shape [OF port] disc_sum_def get_byte_def)
  with sent parsed small port show ?thesis
    by simp
qed

text \<open>
  C6, as amended. The discovery response that encodes the UID \<open>0202:02020202\<close> is
  \<open>FE FE FE FE FE FE FE AA\<close>, six times \<open>AA 57\<close>, then \<open>AE 57 AE 57\<close>; decoding it
  with \<open>rdm_parse\<close> recovers \<open>0202:02020202\<close> and the recomputed checksum matches.
  The byte sequence of the spec's scenario decodes to the UID \<open>0303:0303FFFF\<close>
  instead, its recomputed sum \<open>0x0804\<close> differs from the decoded checksum \<open>0xFFFF\<close>,
  and \<open>rdm_parse\<close> returns false.
\<close>

theorem rdm_parse_disc_scenario:
  "rdm_parse uid_0202_disc_response 24 event = Some (True, disc_event event 0x020202020202 True) \<and>
   rdm_parse spec_disc_response 24 event = Some (False, disc_event event 0x03030303ffff False)"
  by (simp add: rdm_parse_def byte_at_def RDM_PREAMBLE_def RDM_DELIMITER_def set_byte_def
        disc_event_def uid_0202_disc_response_def spec_disc_response_def)

text \<open>The amended sequence is what the encoder sends for \<open>0202:02020202\<close>.\<close>

theorem rdm_parse_disc_scenario_witness:
  "rdm_parse uid_0202_disc_response 24 test_event =
     Some (True, disc_event test_event 0x020202020202 True) \<and>
   rdm_send_disc_response test_platform True 0 0x020202020202 = Some uid_0202_disc_response"
proof -
  have "rdm_send_disc_response test_platform True 0 0x020202020202 = Some uid_0202_disc_response"
    by (simp add: encode_shape test_platform_def disc_sum_def get_byte_def uid_0202_disc_response_def)
  with rdm_parse_disc_scenario [of test_event] show ?thesis
    by simp
qed

text \<open>
  C6 as stated fails: on the spec's bytes \<open>rdm_parse\<close> returns false and the UID it
  recovers is \<open>0303:0303FFFF\<close>.
\<close>

theorem rdm_parse_spec_bytes_counterexample:
  "map_option fst (rdm_parse spec_disc_response 24 test_event) = Some False \<and>
   map_option (\<lambda>r. ev_source_uid (snd r)) (rdm_parse spec_disc_response 24 test_event) =
     Some 0x03030303ffff \<and>
   (0x03030303ffff :: u64) \<noteq> 0x020202020202"
  by (simp add: rdm_parse_def byte_at_def RDM_PREAMBLE_def RDM_DELIMITER_def set_byte_def
        spec_disc_response_def)

section \<open>Controller requests\<close>

lemma request_header_fields:
  "dest_uid (snd (request_header cfg dmx_num driver binding header0)) = dest_uid header0"
  "pid (snd (request_header cfg dmx_num driver binding header0)) = pid header0"
  "cc (snd (request_header cfg dmx_num driver binding header0)) = cc header0"
  "tn (snd (request_header cfg dmx_num driver binding header0)) = drv_tn driver"
  by (simp_all add: request_header_def Let_def split: prod.splits option.splits)

lemma classify_response_valid:
  "classify_response env header =
     (if response_valid env header then response_type (read_rdm_resp env)
      else RDM_RESPONSE_TYPE_INVALID)"
  by (auto simp: classify_response_def response_valid_def claimed_response_match_def Let_def)


lemma request_header_sent:
  assumes "request_header cfg dmx_num driver binding header0 = (b, h)"
  shows "dest_uid h = dest_uid header0" "pid h = pid header0" "cc h = cc header0"
    "tn h = drv_tn driver"
  using request_header_fields [of cfg dmx_num driver binding header0] assms
  by simp_all

lemma response_received_sent:
  assumes "request_header cfg dmx_num driver binding header0 = (b, h)"
  shows "response_received env h = response_received env header0"
  using request_header_sent [OF assms] by (simp add: response_received_def)

text \<open>
  C1, as amended. For every controller request sent with \<open>rdm_send_request\<close> that
  receives a response, the function returns true if and only if the response decodes
  with a valid checksum, its response type is \<open>RDM_RESPONSE_TYPE_ACK\<close>, and, unless
  the request's PID was \<open>DISC_UNIQUE_BRANCH\<close>, its command class is the request's plus
  one, its PID and transaction number are the request's, its destination UID is the
  request's source UID and its source UID is targeted by the request's destination
  UID. A response that fails to decode, whose type is none of \<open>ACK\<close>,
  \<open>ACK_TIMER\<close>, \<open>NACK_REASON\<close> and \<open>ACK_OVERFLOW\<close>, or whose header does not
  match yields \<open>ack.type = RDM_RESPONSE_TYPE_INVALID\<close> and false; a response that
  passes these tests yields its own response type in \<open>ack.type\<close>, so a well-formed
  \<open>ACK_TIMER\<close>, \<open>NACK_REASON\<close> or \<open>ACK_OVERFLOW\<close> returns false with that type.
\<close>

theorem send_request_ack_iff:
  assumes "send_request_asserts cfg dmx_num (Some driver) header0"
    and "response_received env header0"
  shows "\<exists>r. rdm_send_request cfg env dmx_num (Some driver) binding header0 pdl_cell ack = Inr r \<and>
             pid (sr_header r) = pid header0 \<and> tn (sr_header r) = drv_tn driver \<and>
             (sr_ret r \<longleftrightarrow>
                read_rdm_size env \<noteq> 0 \<and>
                response_type (read_rdm_resp env) = RDM_RESPONSE_TYPE_ACK \<and>
                (pid (sr_header r) = RDM_PID_DISC_UNIQUE_BRANCH \<or>
                 claimed_response_match (sr_header r) (read_rdm_resp env))) \<and>
             (\<not> response_valid env (sr_header r) \<longrightarrow>
                \<not> sr_ret r \<and>
                map_option ack_type (sr_ack r) = map_option (\<lambda>a. RDM_RESPONSE_TYPE_INVALID) ack) \<and>
             (response_valid env (sr_header r) \<longrightarrow>
                map_option ack_type (sr_ack r) =
                  map_option (\<lambda>a. response_type (read_rdm_resp env)) ack)"
proof -
  obtain b h where rh: "request_header cfg dmx_num driver binding header0 = (b, h)"
    by (cases "request_header cfg dmx_num driver binding header0")
  have rec: "response_received env h"
    using assms(2) response_received_sent [OF rh] by simp
  define r where "r = \<lparr>sr_ret = (classify_response env h = RDM_RESPONSE_TYPE_ACK),
      sr_header = h,
      sr_ack = fst (snd (handle_response cfg env h
                 (map_option (\<lambda>a. a\<lparr>ack_err := receive_err env, ack_size := receive_size env\<rparr>) ack))),
      sr_pdl = snd (snd (handle_response cfg env h
                 (map_option (\<lambda>a. a\<lparr>ack_err := receive_err env, ack_size := receive_size env\<rparr>) ack))),
      sr_driver = dmx_send driver (write_rdm_size env),
      sr_binding_uid = b,
      sr_calls = [Take_mux, Wait_sent, Write_rdm, Send, Receive, Read_rdm, Give_mux]\<rparr>"
  have run: "rdm_send_request cfg env dmx_num (Some driver) binding header0 pdl_cell ack = Inr r"
    using assms(1) rec rh
    by (auto simp: rdm_send_request_def response_received_def handle_response_def Let_def r_def)
  have hdr: "sr_header r = h" and ret: "sr_ret r = (classify_response env h = RDM_RESPONSE_TYPE_ACK)"
    by (simp_all add: r_def)
  have ackt: "map_option ack_type (sr_ack r) = map_option (\<lambda>a. classify_response env h) ack"
    by (simp add: r_def handle_response_def Let_def option.map_comp comp_def)
  have iff: "sr_ret r \<longleftrightarrow>
                read_rdm_size env \<noteq> 0 \<and>
                response_type (read_rdm_resp env) = RDM_RESPONSE_TYPE_ACK \<and>
                (pid h = RDM_PID_DISC_UNIQUE_BRANCH \<or> claimed_response_match h (read_rdm_resp env))"
    unfolding ret classify_response_valid by (auto simp: response_valid_def)
  have inv: "\<not> response_valid env h \<longrightarrow>
                \<not> sr_ret r \<and>
                map_option ack_type (sr_ack r) = map_option (\<lambda>a. RDM_RESPONSE_TYPE_INVALID) ack"
    unfolding ret ackt classify_response_valid by simp
  have val: "response_valid env h \<longrightarrow>
                map_option ack_type (sr_ack r) =
                  map_option (\<lambda>a. response_type (read_rdm_resp env)) ack"
    unfolding ackt classify_response_valid by simp
  show ?thesis
  proof (intro exI [of _ r] conjI)
    show "rdm_send_request cfg env dmx_num (Some driver) binding header0 pdl_cell ack = Inr r"
      by (rule run)
    show "pid (sr_header r) = pid header0" "tn (sr_header r) = drv_tn driver"
      unfolding hdr by (rule request_header_sent [OF rh])+
    show "sr_ret r \<longleftrightarrow>
            read_rdm_size env \<noteq> 0 \<and>
            response_type (read_rdm_resp env) = RDM_RESPONSE_TYPE_ACK \<and>
            (pid (sr_header r) = RDM_PID_DISC_UNIQUE_BRANCH \<or>
             claimed_response_match (sr_header r) (read_rdm_resp env))"
      unfolding hdr by (rule iff)
    show "\<not> response_valid env (sr_header r) \<longrightarrow>
            \<not> sr_ret r \<and>
            map_option ack_type (sr_ack r) = map_option (\<lambda>a. RDM_RESPONSE_TYPE_INVALID) ack"
      unfolding hdr by (rule inv)
    show "response_valid env (sr_header r) \<longrightarrow>
            map_option ack_type (sr_ack r) =
              map_option (\<lambda>a. response_type (read_rdm_resp env)) ack"
      unfolding hdr by (rule val)
  qed
qed

lemmas test_inputs =
  test_platform_def test_driver_def test_request_def test_response_def test_env_def test_ack_def

lemmas send_request_eval =
  rdm_send_request_def send_request_asserts_def request_header_def handle_response_def
  classify_response_def clear_ack_def dmx_send_def rdm_uid_is_null_def rdm_uid_is_broadcast_def
  rdm_uid_is_target_def rdm_uid_is_eq_def RDM_CC_DISC_COMMAND_def RDM_CC_GET_COMMAND_def
  RDM_CC_SET_COMMAND_def RDM_PID_DISC_UNIQUE_BRANCH_def RDM_SUB_DEVICE_ALL_def

text \<open>
  The spec's transaction mismatch: \<open>GET DEVICE_INFO\<close> sent with transaction number 7
  and answered with 6 is invalid; answered with 7 it is an \<open>ACK\<close>.
\<close>

theorem send_request_ack_iff_witness:
  "send_request_asserts test_platform 1 (Some test_driver) test_request \<and>
   response_received (test_env (test_response 6 RDM_RESPONSE_TYPE_ACK)) test_request \<and>
   map_sum id (\<lambda>r. (sr_ret r, map_option ack_type (sr_ack r)))
     (rdm_send_request test_platform (test_env (test_response 6 RDM_RESPONSE_TYPE_ACK)) 1
        (Some test_driver) null_uid test_request 231 (Some test_ack)) =
     Inr (False, Some RDM_RESPONSE_TYPE_INVALID) \<and>
   map_sum id (\<lambda>r. (sr_ret r, map_option ack_type (sr_ack r)))
     (rdm_send_request test_platform (test_env (test_response 7 RDM_RESPONSE_TYPE_ACK)) 1
        (Some test_driver) null_uid test_request 231 (Some test_ack)) =
     Inr (True, Some RDM_RESPONSE_TYPE_ACK)"
  using send_request_ack_iff [of test_platform 1 test_driver test_request
      "test_env (test_response 6 RDM_RESPONSE_TYPE_ACK)" null_uid 231 "Some test_ack"]
  by (simp add: test_inputs send_request_eval response_received_def Let_def)

text \<open>
  C1 as stated fails on a matching \<open>NACK_REASON\<close> response: the test for
  \<open>RDM_RESPONSE_TYPE_ACK\<close> fails, and \<open>ack.type\<close> is \<open>NACK_REASON\<close>, not
  \<open>INVALID\<close>.
\<close>

theorem send_request_nack_counterexample:
  "map_sum id (\<lambda>r. (sr_ret r, map_option ack_type (sr_ack r)))
     (rdm_send_request test_platform (test_env (test_response 7 RDM_RESPONSE_TYPE_NACK_REASON)) 1
        (Some test_driver) null_uid test_request 231 (Some test_ack)) =
     Inr (False, Some RDM_RESPONSE_TYPE_NACK_REASON) \<and>
   RDM_RESPONSE_TYPE_NACK_REASON \<noteq> RDM_RESPONSE_TYPE_INVALID \<and>
   response_received (test_env (test_response 7 RDM_RESPONSE_TYPE_NACK_REASON)) test_request"
  by (simp add: test_inputs send_request_eval response_received_def Let_def)

text \<open>
  C4. Once \<open>rdm_send_request\<close> has taken the mutex and the bus is free, it calls
  \<open>dmx_receive\<close> if and only if the destination UID is not a broadcast UID or the
  request is \<open>DISC_UNIQUE_BRANCH\<close> (that PID with the discovery command class); in
  every other case it writes, sends, waits for the send to complete, gives the mutex
  back and returns false with \<open>ack.type = RDM_RESPONSE_TYPE_NONE\<close>.
\<close>

theorem send_request_expectation:
  assumes "send_request_asserts cfg dmx_num (Some driver) header0"
    and "mux_taken env" and "wait_sent_ok env"
  shows "\<exists>r. rdm_send_request cfg env dmx_num (Some driver) binding header0 pdl_cell ack = Inr r \<and>
             (Receive \<in> set (sr_calls r) \<longleftrightarrow>
                \<not> rdm_uid_is_broadcast (dest_uid header0) \<or>
                (pid header0 = RDM_PID_DISC_UNIQUE_BRANCH \<and> cc header0 = RDM_CC_DISC_COMMAND)) \<and>
             (Receive \<notin> set (sr_calls r) \<longrightarrow>
                sr_calls r = [Take_mux, Wait_sent, Write_rdm, Send, Wait_sent, Give_mux] \<and>
                \<not> sr_ret r \<and>
                map_option ack_type (sr_ack r) = map_option (\<lambda>a. RDM_RESPONSE_TYPE_NONE) ack)"
proof -
  obtain b h where rh: "request_header cfg dmx_num driver binding header0 = (b, h)"
    by (cases "request_header cfg dmx_num driver binding header0")
  note sent = request_header_sent [OF rh]
  show ?thesis
    using assms rh sent
    by (auto simp: rdm_send_request_def Let_def clear_ack_def option.map_comp comp_def
          split: prod.splits)
qed

text \<open>A \<open>GET\<close> to the broadcast UID is not awaited; the same request to a unicast UID is.\<close>

theorem send_request_expectation_witness:
  "send_request_asserts test_platform 1 (Some test_driver)
     (test_request\<lparr>dest_uid := \<lparr>man_id = 0xffff, dev_id = 0xffffffff\<rparr>\<rparr>) \<and>
   mux_taken (test_env (test_response 7 RDM_RESPONSE_TYPE_ACK)) \<and>
   wait_sent_ok (test_env (test_response 7 RDM_RESPONSE_TYPE_ACK)) \<and>
   map_sum id (\<lambda>r. (sr_ret r, map_option ack_type (sr_ack r), sr_calls r))
     (rdm_send_request test_platform (test_env (test_response 7 RDM_RESPONSE_TYPE_ACK)) 1
        (Some test_driver) null_uid
        (test_request\<lparr>dest_uid := \<lparr>man_id = 0xffff, dev_id = 0xffffffff\<rparr>\<rparr>)
        231 (Some test_ack)) =
     Inr (False, Some RDM_RESPONSE_TYPE_NONE,
          [Take_mux, Wait_sent, Write_rdm, Send, Wait_sent, Give_mux]) \<and>
   map_sum id (\<lambda>r. sr_calls r)
     (rdm_send_request test_platform (test_env (test_response 7 RDM_RESPONSE_TYPE_ACK)) 1
        (Some test_driver) null_uid test_request 231 (Some test_ack)) =
     Inr [Take_mux, Wait_sent, Write_rdm, Send, Receive, Read_rdm, Give_mux]"
  using send_request_expectation [of test_platform 1 test_driver
      "test_request\<lparr>dest_uid := \<lparr>man_id = 0xffff, dev_id = 0xffffffff\<rparr>\<rparr>"
      "test_env (test_response 7 RDM_RESPONSE_TYPE_ACK)" null_uid 231 "Some test_ack"]
  by (simp add: test_inputs send_request_eval Let_def)

text \<open>
  C3. The header of a request carries the transaction number the port's driver held
  when \<open>rdm_send_request\<close> was called. The request is placed on the wire exactly when
  the mutex was taken and the bus was free; then the driver's transaction number is
  the old one plus 1 modulo 256, and in every other case it is unchanged, so it never
  steps back.
\<close>

theorem send_request_tn:
  assumes "send_request_asserts cfg dmx_num (Some driver) header0"
  shows "\<exists>r. rdm_send_request cfg env dmx_num (Some driver) binding header0 pdl_cell ack = Inr r \<and>
             tn (sr_header r) = drv_tn driver \<and>
             (Send \<in> set (sr_calls r) \<longleftrightarrow> mux_taken env \<and> wait_sent_ok env) \<and>
             (Send \<in> set (sr_calls r) \<longrightarrow>
                drv_tn (sr_driver r) = drv_tn driver + 1 \<and>
                unat (drv_tn (sr_driver r)) = (unat (drv_tn driver) + 1) mod 256) \<and>
             (Send \<notin> set (sr_calls r) \<longrightarrow> drv_tn (sr_driver r) = drv_tn driver)"
proof -
  obtain b h where rh: "request_header cfg dmx_num driver binding header0 = (b, h)"
    by (cases "request_header cfg dmx_num driver binding header0")
  note sent = request_header_sent [OF rh]
  have wrap: "unat (drv_tn driver + 1) = (unat (drv_tn driver) + 1) mod 256"
    by (simp add: unat_word_ariths)
  show ?thesis
    using assms rh sent wrap
    by (auto simp: rdm_send_request_def Let_def dmx_send_def split: prod.splits)
qed

text \<open>From 255 the transaction number wraps to 0 when the request is sent, and stays when the mutex is busy.\<close>

theorem send_request_tn_witness:
  "send_request_asserts test_platform 1 (Some (test_driver\<lparr>drv_tn := 255\<rparr>)) test_request \<and>
   map_sum id (\<lambda>r. (tn (sr_header r), drv_tn (sr_driver r), Send \<in> set (sr_calls r)))
     (rdm_send_request test_platform (test_env (test_response 255 RDM_RESPONSE_TYPE_ACK)) 1
        (Some (test_driver\<lparr>drv_tn := 255\<rparr>)) null_uid test_request 231 (Some test_ack)) =
     Inr (255, 0, True) \<and>
   map_sum id (\<lambda>r. (tn (sr_header r), drv_tn (sr_driver r), Send \<in> set (sr_calls r)))
     (rdm_send_request test_platform
        ((test_env (test_response 255 RDM_RESPONSE_TYPE_ACK))\<lparr>mux_taken := False\<rparr>) 1
        (Some (test_driver\<lparr>drv_tn := 255\<rparr>)) null_uid test_request 231 (Some test_ack)) =
     Inr (255, 255, False)"
  using send_request_tn [of test_platform 1 "test_driver\<lparr>drv_tn := 255\<rparr>" test_request
      "test_env (test_response 255 RDM_RESPONSE_TYPE_ACK)" null_uid 231 "Some test_ack"]
  by (simp add: test_inputs send_request_eval Let_def)

section \<open>Parameter storage and the parameter table\<close>

lemma rdm_pd_alloc_step:
  assumes "dmx_num < DMX_NUM_MAX cfg"
  shows "\<exists>driver' ret.
           rdm_pd_alloc cfg dmx_num (Some driver) size_arg = Inr (driver', ret) \<and>
           (ret = None \<longleftrightarrow> size_arg = 0 \<or> pd_head driver + size_arg > pd_size driver) \<and>
           (ret = None \<longrightarrow> driver' = driver) \<and>
           (ret \<noteq> None \<longrightarrow>
              ret = Some (pd driver + unat (pd_head driver)) \<and>
              driver' = driver\<lparr>pd_head := pd_head driver + size_arg\<rparr>) \<and>
           pd_size driver' = pd_size driver \<and>
           (pd_head driver \<le> pd_size driver \<longrightarrow> pd_head driver' \<le> pd_size driver')"
  using assms by (auto simp: rdm_pd_alloc_def not_le)

lemma pd_alloc_all_invariant:
  assumes "dmx_num < DMX_NUM_MAX cfg" and "pd_head driver \<le> pd_size driver"
  shows "\<exists>driver'. pd_alloc_all cfg dmx_num driver sizes = Inr driver' \<and>
           pd_size driver' = pd_size driver \<and> pd_head driver' \<le> pd_size driver'"
  using assms(2)
proof (induction sizes arbitrary: driver)
  case Nil
  then show ?case by simp
next
  case (Cons size_arg sizes)
  from rdm_pd_alloc_step [OF assms(1), of driver size_arg] Cons.prems
  obtain d ret where
    step: "rdm_pd_alloc cfg dmx_num (Some driver) size_arg = Inr (d, ret)" and
    size: "pd_size d = pd_size driver" and inv: "pd_head d \<le> pd_size d"
    by blast
  from Cons.IH [OF inv] obtain driver' where
    "pd_alloc_all cfg dmx_num d sizes = Inr driver'" "pd_size driver' = pd_size d"
    "pd_head driver' \<le> pd_size driver'"
    by blast
  with step size show ?case by simp
qed

text \<open>
  As long as \<open>pd_head + size\<close> does not exceed the range of \<open>size_t\<close>, the test of
  \<open>rdm_pd_alloc\<close> is the test on the true sum, and a successful call advances
  \<open>pd_head\<close> by \<open>size\<close>.
\<close>

lemma rdm_pd_alloc_no_wrap:
  assumes "dmx_num < DMX_NUM_MAX cfg"
    and "unat (pd_head driver) + unat size_arg < 4294967296"
  shows "\<exists>driver' ret.
           rdm_pd_alloc cfg dmx_num (Some driver) size_arg = Inr (driver', ret) \<and>
           (ret = None \<longleftrightarrow>
              size_arg = 0 \<or> unat (pd_head driver) + unat size_arg > unat (pd_size driver)) \<and>
           (ret = None \<longrightarrow> driver' = driver) \<and>
           (ret \<noteq> None \<longrightarrow>
              ret = Some (pd driver + unat (pd_head driver)) \<and>
              unat (pd_head driver') = unat (pd_head driver) + unat size_arg \<and>
              driver' = driver\<lparr>pd_head := pd_head driver + size_arg\<rparr>)"
proof -
  have sum: "unat (pd_head driver + size_arg) = unat (pd_head driver) + unat size_arg"
    using assms(2) by (simp add: unat_word_ariths)
  have "pd_head driver + size_arg \<le> pd_size driver \<longleftrightarrow>
          unat (pd_head driver) + unat size_arg \<le> unat (pd_size driver)"
    by (simp add: word_le_nat_alt sum)
  with assms(1) sum show ?thesis
    by (auto simp: rdm_pd_alloc_def not_le)
qed

text \<open>
  C10 says that \<open>rdm_pd_alloc\<close> returns \<open>NULL\<close> when the allocation would overrun the
  backing region, and that a successful call advances \<open>pd_head\<close> by exactly the
  requested size. The code tests \<open>driver->pd_head + size <= driver->pd_size\<close> in
  \<open>size_t\<close> arithmetic, where the sum wraps. On a 100-byte region with two bytes in
  use, a request for \<open>0xffffffff\<close> bytes overruns the region (2 + 4294967295 > 100),
  yet the wrapped sum is 1: the call returns the address \<open>pd + 2\<close> instead of \<open>NULL\<close>
  and moves \<open>pd_head\<close> back from 2 to 1, so that the next request for one byte is
  given the byte at offset 1, which is already in use.
\<close>

theorem rdm_pd_alloc_wraps:
  "unat (pd_head one_pid_driver) + unat (0xffffffff :: u32) > unat (pd_size one_pid_driver) \<and>
   map_sum id (\<lambda>r. (pd_head (fst r), snd r))
     (rdm_pd_alloc test_platform 1 (Some one_pid_driver) 0xffffffff) =
     Inr (1, Some 0x3ffb0002) \<and>
   map_sum id (\<lambda>r. (pd_head (fst r), snd r))
     (rdm_pd_alloc test_platform 1
        (Some (one_pid_driver\<lparr>pd_head := pd_head one_pid_driver + 0xffffffff\<rparr>)) 1) =
     Inr (2, Some 0x3ffb0001)"
  by (simp add: rdm_pd_alloc_def test_platform_def one_pid_driver_def)

text \<open>
  The same region: 98 bytes fit and 99 are refused, and the request for \<open>0xffffffff\<close>
  bytes is served.
\<close>

theorem rdm_pd_alloc_wraps_witness:
  "map_sum id snd (rdm_pd_alloc test_platform 1 (Some one_pid_driver) 98) =
     Inr (Some 0x3ffb0002) \<and>
   map_sum id snd (rdm_pd_alloc test_platform 1 (Some one_pid_driver) 99) = Inr None \<and>
   map_sum id snd (rdm_pd_alloc test_platform 1 (Some one_pid_driver) 0xffffffff) =
     Inr (Some 0x3ffb0002)"
  using rdm_pd_alloc_wraps
  by (cases "rdm_pd_alloc test_platform 1 (Some one_pid_driver) 0xffffffff")
     (auto simp: rdm_pd_alloc_def test_platform_def one_pid_driver_def)

lemma find_pid_absent:
  assumes "num \<le> length cbs" and "i \<le> num"
    and "p \<notin> set (map (\<lambda>cb. desc_pid (cb_desc cb)) (drop i (take num cbs)))"
  shows "find_pid cbs num p i = Inr num"
  using assms
proof (induction cbs num p i rule: find_pid.induct)
  case (1 cbs num p i)
  show ?case
  proof (cases "i < num")
    case False
    with "1.prems" show ?thesis by simp
  next
    case True
    with "1.prems" have len: "i < length cbs" by simp
    from True len have d: "drop i (take num cbs) = cbs ! i # drop (i + 1) (take num cbs)"
      by (simp add: Cons_nth_drop_Suc [symmetric])
    from "1.prems"(3) d have ne: "desc_pid (cb_desc (cbs ! i)) \<noteq> p"
      and rest: "p \<notin> set (map (\<lambda>cb. desc_pid (cb_desc cb)) (drop (i + 1) (take num cbs)))"
      by auto
    from True have "find_pid cbs num p i = find_pid cbs num p (i + 1)"
      using len ne by (subst find_pid.simps) simp
    also have "\<dots> = Inr num"
      using "1.IH" [OF True _ _ "1.prems"(1)] True len ne rest by simp
    finally show ?thesis .
  qed
qed

text \<open>
  C9. For every port whose slot count lies within the table and every PID that none
  of the slots in use carries, \<open>rdm_get_parameter\<close> returns false and leaves the
  store, hence the caller's output buffer, and the caller's size cell unchanged.
\<close>

theorem rdm_get_parameter_unregistered:
  assumes "num_rdm_cbs driver \<le> length (rdm_cbs driver)"
    and "p \<notin> set (registered_pids driver)"
  shows "rdm_get_parameter driver p param size_cell mem = Inr (mem, size_cell, False)"
proof -
  have "find_pid (rdm_cbs driver) (num_rdm_cbs driver) p 0 = Inr (num_rdm_cbs driver)"
    using assms by (intro find_pid_absent) (simp_all add: registered_pids_def)
  then show ?thesis
    by (simp add: rdm_get_parameter_def)
qed

text \<open>PID \<open>0x0080\<close> on a port that has registered only \<open>DMX_START_ADDRESS\<close>.\<close>

theorem rdm_get_parameter_unregistered_witness:
  "num_rdm_cbs one_pid_driver \<le> length (rdm_cbs one_pid_driver) \<and>
   0x0080 \<notin> set (registered_pids one_pid_driver) \<and>
   map_sum id snd (rdm_get_parameter one_pid_driver 0x0080 0x3ffc0000 4 (\<lambda>a. 0x55)) =
     Inr (4, False)"
  using rdm_get_parameter_unregistered [of one_pid_driver "0x0080" "0x3ffc0000" 4 "\<lambda>a. 0x55"]
  by (simp add: one_pid_driver_def registered_pids_def start_address_desc_def)

lemma find_pid_result:
  assumes "find_pid cbs num p i = Inr k" and "i \<le> num"
  shows "i \<le> k \<and> k \<le> num \<and> (k < num \<longrightarrow> k < length cbs \<and> desc_pid (cb_desc (cbs ! k)) = p)"
  using assms
proof (induction cbs num p i rule: find_pid.induct)
  case (1 cbs num p i)
  show ?case
  proof (cases "i < num \<and> i < length cbs \<and> desc_pid (cb_desc (cbs ! i)) \<noteq> p")
    case True
    then have "find_pid cbs num p i = find_pid cbs num p (i + 1)"
      by (subst find_pid.simps) simp
    with "1.prems" have "find_pid cbs num p (i + 1) = Inr k" by simp
    from "1.IH" [OF _ _ _ this] True show ?thesis by auto
  next
    case False
    with "1.prems" show ?thesis
      by (subst (asm) find_pid.simps) (auto split: if_splits)
  qed
qed

text \<open>
  A registration never removes a PID: the PIDs of the slots that were in use are still
  there, in place, after any call that returns.
\<close>

lemma register_keeps_pids:
  assumes "rdm_register_parameter cfg dmx_num (Some driver) sub_dev desc param_str
             driver_cb param user_cb context = Inr (driver', ok)"
  shows "take (num_rdm_cbs driver) (registered_pids driver') = registered_pids driver"
proof (cases ok)
  case False
  with assms have "driver' = driver"
    by (auto simp: rdm_register_parameter_def simp del: find_pid.simps
          split: if_splits sum.splits)
  then show ?thesis by (simp add: registered_pids_def)
next
  case True
  with assms obtain i where
    found: "find_pid (rdm_cbs driver) (num_rdm_cbs driver) (desc_pid desc) 0 = Inr i" and
    len: "i < length (rdm_cbs driver)" and
    upd: "driver' = driver\<lparr>rdm_cbs := (rdm_cbs driver)
                    [i := \<lparr>cb_desc = desc, cb_param_str = param_str, cb_param = param,
                           cb_context = context, cb_user_cb = user_cb,
                           cb_driver_cb = driver_cb\<rparr>],
                  num_rdm_cbs := num_rdm_cbs driver + 1\<rparr>"
    by (auto simp: rdm_register_parameter_def simp del: find_pid.simps
          split: if_splits sum.splits)
  from find_pid_result [OF found] have
    le: "i \<le> num_rdm_cbs driver" and
    same: "i < num_rdm_cbs driver \<longrightarrow> desc_pid (cb_desc (rdm_cbs driver ! i)) = desc_pid desc"
    by auto
  let ?pids = "map (\<lambda>cb. desc_pid (cb_desc cb)) (rdm_cbs driver)"
  have "?pids[i := desc_pid desc] = ?pids" if "i < num_rdm_cbs driver"
    using that same len by (simp add: list_update_same_conv)
  then have "take (num_rdm_cbs driver) (?pids[i := desc_pid desc]) = take (num_rdm_cbs driver) ?pids"
    using le by (cases "i < num_rdm_cbs driver") simp_all
  moreover have "registered_pids driver' =
      take (num_rdm_cbs driver + 1) (?pids[i := desc_pid desc])"
    unfolding upd registered_pids_def by (simp add: map_update flip: take_map)
  ultimately show ?thesis
    by (simp add: registered_pids_def min_def flip: take_map)
qed

text \<open>
  C8 says that registering a PID that is already in the table leaves the number of
  registered entries unchanged. \<open>rdm_register_parameter\<close> finds the slot and
  overwrites it in place, but then increments \<open>num_rdm_cbs\<close> on this path too: on a
  table that holds \<open>DMX_START_ADDRESS\<close> alone, registering \<open>DMX_START_ADDRESS\<close>
  again returns true with a count of 2, and the blank slot 1, PID 0, has become a
  slot in use.
\<close>

theorem rdm_register_parameter_recount:
  "registered_pids one_pid_driver = [0x00f0] \<and>
   map_sum id (\<lambda>r. (snd r, num_rdm_cbs (fst r), registered_pids (fst r)))
     (rdm_register_parameter test_platform 1 (Some one_pid_driver) 0 start_address_desc ''w$''
        0x400d1000 0x3ffb0000 0 0) =
     Inr (True, 2, [0x00f0, 0])"
  by (simp add: rdm_register_parameter_def test_platform_def one_pid_driver_def
        registered_pids_def start_address_desc_def RDM_SUB_DEVICE_ROOT_def blank_cb_def)

theorem rdm_register_parameter_recount_witness:
  "num_rdm_cbs one_pid_driver = 1 \<and>
   map_sum id (\<lambda>r. num_rdm_cbs (fst r))
     (rdm_register_parameter test_platform 1 (Some one_pid_driver) 0 start_address_desc ''w$''
        0x400d1000 0x3ffb0000 0 0) = Inr 2"
  using rdm_register_parameter_recount
  by (cases "rdm_register_parameter test_platform 1 (Some one_pid_driver) 0 start_address_desc
        ''w$'' 0x400d1000 0x3ffb0000 0 0") (auto simp: one_pid_driver_def)

section \<open>Parameter encoder\<close>

lemma c_str_no_nul: "CHR 0x00 \<notin> set s \<Longrightarrow> c_str s = s"
  by (auto simp: c_str_def takeWhile_eq_all_conv)

lemma c_str_long_format: "c_str long_format = long_format"
  by (rule c_str_no_nul) (auto simp: long_format_def)

text \<open>
  \<open>rdm_param_parse\<close> never reports more than 231 bytes, and a format it rejects
  makes \<open>rdm_pd_emplace\<close> return 0 with the store untouched.
\<close>

lemma param_parse_loop_bound:
  assumes "param_size \<le> 231"
  shows "fst (param_parse_loop f param_size singleton) \<le> 231"
  using assms
proof (induction f param_size singleton rule: param_parse_loop.induct)
  case (1 param_size singleton)
  then show ?case by simp
next
  case (2 c rest param_size singleton)
  show ?case
  proof (cases "parse_field c rest singleton")
    case (Return r)
    then have "r = 0 \<or> r = - 1"
      by (auto simp: parse_field_def Let_def simp del: count_xdigits.simps split: if_splits)
    with Return show ?thesis by auto
  next
    case (Field field_size s consumed)
    show ?thesis
    proof (cases "param_size + field_size > 231")
      case True
      with Field show ?thesis by simp
    next
      case False
      with Field "2.IH" [OF Field False] show ?thesis by simp
    qed
  qed
qed

lemma rdm_param_parse_bound: "fst (rdm_param_parse format) \<le> 231"
  unfolding rdm_param_parse_def by (rule param_parse_loop_bound) simp

lemma pd_emplace_rejected:
  assumes "destination \<noteq> 0" and "source \<noteq> 0" and "fst (rdm_param_parse format) < 1"
  shows "rdm_pd_emplace mem destination format source num emplace_nulls = Inr (mem, 0)"
proof (cases "rdm_param_parse format")
  case (Pair param_size singleton)
  with assms show ?thesis
    by (simp add: rdm_pd_emplace_def Let_def del: emplace_params.simps)
qed

lemma parse_uids:
  assumes "param_size + 6 * k \<le> 231"
  shows "param_parse_loop (replicate k CHR ''u'' @ rest) param_size singleton =
           param_parse_loop rest (param_size + 6 * k) singleton"
  using assms
proof (induction k arbitrary: param_size)
  case 0
  then show ?case by simp
next
  case (Suc k)
  then have "param_parse_loop (replicate (Suc k) CHR ''u'' @ rest) param_size singleton =
      param_parse_loop (replicate k CHR ''u'' @ rest) (param_size + 6) singleton"
    by (simp add: parse_field_def)
  also have "\<dots> = param_parse_loop rest (param_size + 6 + 6 * k) singleton"
    using Suc.prems by (intro Suc.IH) simp
  finally show ?case by (simp add: add.assoc)
qed

lemma parse_long_format: "rdm_param_parse long_format = (231, True)"
proof -
  have "param_parse_loop (replicate 33 CHR ''u'' @ ''ba'') 0 False =
      param_parse_loop ''ba'' (0 + 6 * 33) False"
    by (rule parse_uids) simp
  also have "\<dots> = (231, True)"
    by (simp add: parse_field_def)
  finally show ?thesis
    by (simp add: rdm_param_parse_def c_str_long_format) (simp add: long_format_def)
qed

lemma parse_too_long: "rdm_param_parse (replicate 39 CHR ''u'') = (0, False)"
proof -
  have split: "replicate 39 CHR ''u'' = replicate 38 CHR ''u'' @ ''u''"
    using replicate_add [of 38 1 "CHR ''u''"] by simp
  have "param_parse_loop (replicate 38 CHR ''u'' @ ''u'') 0 False =
      param_parse_loop ''u'' (0 + 6 * 38) False"
    by (rule parse_uids) simp
  also have "\<dots> = (0, False)"
    by (simp add: parse_field_def)
  finally have "param_parse_loop (replicate 39 CHR ''u'') 0 False = (0, False)"
    unfolding split .
  moreover have "c_str (replicate 39 CHR ''u'') = replicate 39 CHR ''u''"
    by (rule c_str_no_nul) simp
  ultimately show ?thesis
    by (simp add: rdm_param_parse_def)
qed

lemma rdm_uidmove_outside:
  assumes "a < d \<or> d + 6 \<le> a"
  shows "rdm_uidmove mem d s a = mem a"
  using assms by (auto simp: rdm_uidmove_def rdm_uidcpy_def store16_def store32_def)

lemma emplace_uids:
  assumes "destination \<noteq> 0" and "source \<noteq> 0"
  shows "\<exists>mem'. emplace_fields (replicate k CHR ''u'' @ rest) destination source num en mem n =
                  emplace_fields rest destination source num en mem' (n + 6 * k) \<and>
                (\<forall>a. a < destination + n \<or> destination + n + 6 * k \<le> a \<longrightarrow> mem' a = mem a)"
proof (induction k arbitrary: mem n)
  case 0
  show ?case by (intro exI [of _ mem]) simp
next
  case (Suc k)
  define mem1 where "mem1 = rdm_uidmove mem (destination + n) (source + n)"
  have step: "emplace_fields (replicate (Suc k) CHR ''u'' @ rest) destination source num en mem n =
      emplace_fields (replicate k CHR ''u'' @ rest) destination source num en mem1 (n + 6)"
    using assms by (simp add: mem1_def)
  from Suc.IH [of mem1 "n + 6"] obtain mem' where
    run: "emplace_fields (replicate k CHR ''u'' @ rest) destination source num en mem1 (n + 6) =
            emplace_fields rest destination source num en mem' (n + 6 + 6 * k)" and
    frame: "\<forall>a. a < destination + (n + 6) \<or> destination + (n + 6) + 6 * k \<le> a \<longrightarrow> mem' a = mem1 a"
    by blast
  have "mem' a = mem a" if "a < destination + n \<or> destination + n + 6 * Suc k \<le> a" for a
  proof -
    from that have "mem' a = mem1 a" using frame by auto
    also from that have "mem1 a = mem a" unfolding mem1_def by (intro rdm_uidmove_outside) auto
    finally show ?thesis .
  qed
  with step run show ?case
    by (intro exI [of _ mem']) (simp add: add.assoc)
qed

lemma strnlen_full:
  assumes "\<forall>k<m. mem (s + k) \<noteq> 0"
  shows "strnlen mem s m = m"
  using assms
proof (induction m arbitrary: s)
  case 0
  show ?case by simp
next
  case (Suc m)
  from Suc.prems have head: "mem s \<noteq> 0" by (metis add.right_neutral zero_less_Suc)
  have "\<forall>k<m. mem (s + 1 + k) \<noteq> 0"
  proof (intro allI impI)
    fix k assume "k < m"
    then have "Suc k < Suc m" by simp
    with Suc.prems have "mem (s + Suc k) \<noteq> 0" by blast
    then show "mem (s + 1 + k) \<noteq> 0" by simp
  qed
  then have "strnlen mem (s + 1) m = m" by (rule Suc.IH)
  with head show ?case by simp
qed

text \<open>
  C7 says that no call of \<open>rdm_pd_emplace\<close> reports more than 231 bytes written.
  The format of 33 UIDs, a byte and a string describes a parameter of exactly 231
  bytes, which \<open>rdm_param_parse\<close> accepts. With a 32-character string in the source,
  \<open>num = 231\<close> and \<open>emplace_nulls\<close> set, the string's terminator is written after
  the 231 bytes: the call returns 232, and byte 231 of the destination is the \<open>NUL\<close>.
\<close>

theorem pd_emplace_overrun:
  "map_sum id (\<lambda>r. (snd r, fst r 1231))
     (rdm_pd_emplace (\<lambda>a. 0x41) 1000 long_format 2000 231 True) = Inr (232, 0)"
proof -
  define mem0 :: memory where "mem0 = (\<lambda>a. 0x41)"
  from emplace_uids [of 1000 2000 33 "''ba''" 231 True mem0 0]
  obtain mem1 where
    uids: "emplace_fields long_format 1000 2000 231 True mem0 0 =
             emplace_fields ''ba'' 1000 2000 231 True mem1 198" and
    frame: "\<forall>a. a < 1000 \<or> 1198 \<le> a \<longrightarrow> mem1 a = mem0 a"
    by (auto simp: long_format_def)
  define mem2 where "mem2 = mem1(1198 := mem1 2198)"
  have src: "\<forall>k<32. mem2 (2199 + k) \<noteq> 0"
    using frame by (simp add: mem2_def mem0_def)
  have len: "strnlen mem2 2199 32 = 32"
    using src by (rule strnlen_full)
  have fields: "emplace_fields long_format 1000 2000 231 True mem0 0 =
      ((memmove mem2 1199 2199 32)(1231 := 0), 232)"
    unfolding uids by (simp add: mem2_def [symmetric] len del: strnlen.simps)
  have "emplace_params long_format 1000 2000 231 True 1 0 mem0 0 =
      ((memmove mem2 1199 2199 32)(1231 := 0), 232)"
    by (simp add: fields)
  then show ?thesis
    by (simp add: rdm_pd_emplace_def parse_long_format c_str_long_format mem0_def)
qed

text \<open>
  The format is accepted at exactly 231 bytes and the call reports 232; a format of 39
  UIDs, 234 bytes, is rejected and nothing is written.
\<close>

theorem pd_emplace_overrun_witness:
  "rdm_param_parse long_format = (231, True) \<and>
   map_sum id snd (rdm_pd_emplace (\<lambda>a. 0x41) 1000 long_format 2000 231 True) = Inr 232 \<and>
   rdm_pd_emplace (\<lambda>a. 0x41) 1000 (replicate 39 CHR ''u'') 2000 231 True = Inr (\<lambda>a. 0x41, 0)"
proof -
  have "rdm_pd_emplace (\<lambda>a. 0x41) 1000 (replicate 39 CHR ''u'') 2000 231 True = Inr (\<lambda>a. 0x41, 0)"
    by (rule pd_emplace_rejected) (simp_all add: parse_too_long)
  with pd_emplace_overrun parse_long_format show ?thesis
    by (cases "rdm_pd_emplace (\<lambda>a. 0x41) 1000 long_format 2000 231 True") auto
qed

end
